theory Spec2Isabelle
  imports Complex_Main
begin

section \<open>Index boxes and arrays\<close>

text \<open>
  A \<^verbatim>\<open>blitz::Array<real, 3>\<close> is modelled by the function from its index triples to
  its values, with \<^verbatim>\<open>real\<close> (a C++ floating-point type) idealised as the mathematical
  reals. The index box of an array is kept beside it (\<^verbatim>\<open>blitz::RectDomain<3>\<close>, a pair
  of corner triples, both inclusive). An access outside the box is not checked by the
  source and is not modelled.
\<close>

type_synonym idx = "int \<times> int \<times> int"

type_synonym arr = "idx \<Rightarrow> real"

record RectDomain =
  lbound :: idx
  ubound :: idx

definition inDom :: "RectDomain \<Rightarrow> idx \<Rightarrow> bool" where
  "inDom d c =
     (case lbound d of (x0, y0, z0) \<Rightarrow>
      case ubound d of (x1, y1, z1) \<Rightarrow>
      case c of (i, j, k) \<Rightarrow>
        x0 \<le> i \<and> i \<le> x1 \<and> y0 \<le> j \<and> j \<le> y1 \<and> z0 \<le> k \<and> k \<le> z1)"

text \<open>The cells of a box, in the order of the source's loop nests (x outermost).\<close>

definition cells :: "RectDomain \<Rightarrow> idx list" where
  "cells d =
     (case lbound d of (x0, y0, z0) \<Rightarrow>
      case ubound d of (x1, y1, z1) \<Rightarrow>
        concat (map (\<lambda>i. concat (map (\<lambda>j. map (\<lambda>k. (i, j, k)) [z0..z1]) [y0..y1])) [x0..x1]))"

text \<open>
  Slice statements of the source: \<^verbatim>\<open>H(d) += D(d)\<close>, \<^verbatim>\<open>H(d) -= A(d)*D(d)\<close>,
  \<^verbatim>\<open>H(d) = D(d)\<close>. Cells outside the slice keep their value.
\<close>

definition sliceAdd :: "RectDomain \<Rightarrow> arr \<Rightarrow> arr \<Rightarrow> arr" where
  "sliceAdd d H D = (\<lambda>c. if inDom d c then H c + D c else H c)"

definition sliceSubMul :: "RectDomain \<Rightarrow> arr \<Rightarrow> arr \<Rightarrow> arr \<Rightarrow> arr" where
  "sliceSubMul d H A D = (\<lambda>c. if inDom d c then H c - A c * D c else H c)"

definition sliceAssign :: "RectDomain \<Rightarrow> arr \<Rightarrow> arr \<Rightarrow> arr" where
  "sliceAssign d H D = (\<lambda>c. if inDom d c then D c else H c)"

text \<open>
  \<^verbatim>\<open>blitz::max\<close> over the elements of an array expression, listed cell by cell, and
  \<^verbatim>\<open>MPI_Allreduce\<close> with \<^verbatim>\<open>MPI_MAX\<close> over the contributions of all ranks (the
  calling rank's first). Every array of the solver has positive extents, so the list is
  never empty in the source; the theorems below state that as a hypothesis where they
  need it.
\<close>

definition blitz_max :: "real list \<Rightarrow> real" where
  "blitz_max xs = Max (set xs)"

definition MPI_Allreduce_MAX :: "real list \<Rightarrow> real" where
  "MPI_Allreduce_MAX contributions = Max (set contributions)"

section \<open>The grid and the input parameters\<close>

text \<open>
  The classes \<^verbatim>\<open>parser\<close> and \<^verbatim>\<open>grid\<close> are declared in other files of the repository;
  the records hold the members the code below reads.
\<close>

record parser =
  xPer :: bool
  yPer :: bool
  zPer :: bool
  lesModel :: int
  cnTolerance :: real
  tStp :: real

record grid =
  inputParams :: parser
  rank :: int
  coreDomain :: RectDomain
  fullDomain :: RectDomain
  fullSize :: idx
  coreSize :: idx
  xix2 :: "int \<Rightarrow> real"
  xixx :: "int \<Rightarrow> real"
  ety2 :: "int \<Rightarrow> real"
  etyy :: "int \<Rightarrow> real"
  ztz2 :: "int \<Rightarrow> real"
  ztzz :: "int \<Rightarrow> real"
  dXi :: real
  dEt :: real
  dZt :: real

section \<open>field.cc\<close>

text \<open>
  A \<^verbatim>\<open>field\<close> holds the array \<^verbatim>\<open>F\<close>, resized to \<^verbatim>\<open>gridData.fullSize\<close> and
  re-indexed to start at \<^verbatim>\<open>gridData.fullDomain.lbound()\<close> by the constructor.
\<close>

text \<open>
  Calls into code of other files (halo transport, boundary objects, the LES
  model, MPI) are logged, in program order, in a trace of the calls made so far. The
  halo exchange and the reductions depend on what the other ranks hold at that moment:
  such a collaborator takes the trace at the time of the call as an argument, so that
  two calls need not give the same answer.
\<close>

datatype wall = Lft | Rgt | Frn | Bak | Top | Bot

datatype call =
    SyncData string
  | ImposeBC string wall
  | ImposeVxBC
  | ImposeVyBC
  | ImposeVzBC
  | ImposeVBCs
  | ComputeSG_V
  | ComputeSG_VT
  | Allreduce
  | Finalize

record field =
  fieldName :: string
  gridData :: grid
  F :: arr
  mpiHandle_syncData :: "call list \<Rightarrow> arr \<Rightarrow> arr"

definition fieldBox :: "grid \<Rightarrow> RectDomain" where
  "fieldBox g =
     (case lbound (fullDomain g) of (x0, y0, z0) \<Rightarrow>
      case fullSize g of (sx, sy, sz) \<Rightarrow>
        \<lparr>lbound = (x0, y0, z0), ubound = (x0 + sx - 1, y0 + sy - 1, z0 + sz - 1)\<rparr>)"

text \<open>\<^verbatim>\<open>localMax = blitz::max(blitz::abs(F))\<close>: over the whole array, pads included.\<close>

definition localMax :: "field \<Rightarrow> real" where
  "localMax f = blitz_max (map (\<lambda>c. \<bar>F f c\<bar>) (cells (fieldBox (gridData f))))"

text \<open>
  \<^verbatim>\<open>field::fieldMax\<close> on one rank; \<open>others\<close> are the pieces of the same distributed
  field held by the other ranks, which enter the collective reduction.
\<close>

definition fieldMax :: "field \<Rightarrow> field list \<Rightarrow> real" where
  "fieldMax f others = MPI_Allreduce_MAX (localMax f # map localMax others)"

text \<open>Scaling a field by a real number (\<^verbatim>\<open>F *= a\<close>, as \<^verbatim>\<open>sfield::operator *=\<close> does).\<close>

definition fieldScale :: "real \<Rightarrow> field \<Rightarrow> field" where
  "fieldScale a f = f\<lparr>F := (\<lambda>c. F f c * a)\<rparr>"

text \<open>\<^verbatim>\<open>field::syncData\<close>: \<^verbatim>\<open>mpiHandle->syncData()\<close> rewrites the array in place.\<close>

definition field_syncData ::
  "('a field_scheme) \<times> call list \<Rightarrow> ('a field_scheme) \<times> call list" where
  "field_syncData s =
     (case s of (f, tr) \<Rightarrow>
        (f\<lparr>F := mpiHandle_syncData f tr (F f)\<rparr>, tr @ [SyncData (fieldName f)]))"

section \<open>plainvf.cc\<close>

text \<open>
  A plain vector field holds three arrays. A plain scalar field (\<^verbatim>\<open>plainsf\<close>) holds
  one array \<^verbatim>\<open>F\<close> and is represented by that array. The velocity \<^verbatim>\<open>vfield\<close> is declared
  in another file; the record holds its three arrays \<^verbatim>\<open>Vx.F\<close>, \<^verbatim>\<open>Vy.F\<close>
  and \<^verbatim>\<open>Vz.F\<close>.
\<close>

record plainvf =
  Vx :: arr
  Vy :: arr
  Vz :: arr

record vfield =
  Vx_F :: arr
  Vy_F :: arr
  Vz_F :: arr

definition multAdd :: "plainvf \<Rightarrow> plainvf \<Rightarrow> real \<Rightarrow> plainvf" where
  "multAdd this a k =
     \<lparr>Vx = (\<lambda>c. Vx this c + k * Vx a c),
      Vy = (\<lambda>c. Vy this c + k * Vy a c),
      Vz = (\<lambda>c. Vz this c + k * Vz a c)\<rparr>"

definition plainvf_add :: "plainvf \<Rightarrow> plainvf \<Rightarrow> plainvf" where
  "plainvf_add this a =
     \<lparr>Vx = (\<lambda>c. Vx this c + Vx a c),
      Vy = (\<lambda>c. Vy this c + Vy a c),
      Vz = (\<lambda>c. Vz this c + Vz a c)\<rparr>"

definition plainvf_sub :: "plainvf \<Rightarrow> plainvf \<Rightarrow> plainvf" where
  "plainvf_sub this a =
     \<lparr>Vx = (\<lambda>c. Vx this c - Vx a c),
      Vy = (\<lambda>c. Vy this c - Vy a c),
      Vz = (\<lambda>c. Vz this c - Vz a c)\<rparr>"

definition plainvf_add_vfield :: "plainvf \<Rightarrow> vfield \<Rightarrow> plainvf" where
  "plainvf_add_vfield this a =
     \<lparr>Vx = (\<lambda>c. Vx this c + Vx_F a c),
      Vy = (\<lambda>c. Vy this c + Vy_F a c),
      Vz = (\<lambda>c. Vz this c + Vz_F a c)\<rparr>"

definition plainvf_sub_vfield :: "plainvf \<Rightarrow> vfield \<Rightarrow> plainvf" where
  "plainvf_sub_vfield this a =
     \<lparr>Vx = (\<lambda>c. Vx this c - Vx_F a c),
      Vy = (\<lambda>c. Vy this c - Vy_F a c),
      Vz = (\<lambda>c. Vz this c - Vz_F a c)\<rparr>"

definition plainvf_mul :: "plainvf \<Rightarrow> real \<Rightarrow> plainvf" where
  "plainvf_mul this a =
     \<lparr>Vx = (\<lambda>c. Vx this c * a), Vy = (\<lambda>c. Vy this c * a), Vz = (\<lambda>c. Vz this c * a)\<rparr>"

definition plainvf_assign_vfield :: "vfield \<Rightarrow> plainvf" where
  "plainvf_assign_vfield a = \<lparr>Vx = Vx_F a, Vy = Vy_F a, Vz = Vz_F a\<rparr>"

definition plainvf_assign_real :: "real \<Rightarrow> plainvf" where
  "plainvf_assign_real a = \<lparr>Vx = (\<lambda>c. a), Vy = (\<lambda>c. a), Vz = (\<lambda>c. a)\<rparr>"

section \<open>sfield.cc\<close>

text \<open>
  The finite-difference object \<^verbatim>\<open>derS\<close> is declared in another file. Each of
  its methods reads the array of the field it was built on (first argument) and writes
  into the array it is handed (second argument, whose new contents it returns).
\<close>

record derivative =
  calcDerivative1_x :: "arr \<Rightarrow> arr \<Rightarrow> arr"
  calcDerivative1_y :: "arr \<Rightarrow> arr \<Rightarrow> arr"
  calcDerivative1_z :: "arr \<Rightarrow> arr \<Rightarrow> arr"
  calcDerivative2xx :: "arr \<Rightarrow> arr \<Rightarrow> arr"
  calcDerivative2yy :: "arr \<Rightarrow> arr \<Rightarrow> arr"
  calcDerivative2zz :: "arr \<Rightarrow> arr \<Rightarrow> arr"

text \<open>
  An \<^verbatim>\<open>sfield\<close> owns a \<^verbatim>\<open>field\<close> (here the record it extends, so that \<open>F T\<close> is
  the source's \<^verbatim>\<open>T.F.F\<close>), the scratch array \<^verbatim>\<open>derivTemp\<close>, the derivative object
  and six boundary objects, whose \<^verbatim>\<open>imposeBC()\<close> rewrites the field's array. Its
  \<^verbatim>\<open>core\<close> is \<^verbatim>\<open>gridData.coreDomain\<close>. The build flag \<^verbatim>\<open>PLANAR\<close> is the first
  argument of the functions that test it.
\<close>

record sfield = field +
  derS :: derivative
  derivTemp :: arr
  tLft :: "arr \<Rightarrow> arr"
  tRgt :: "arr \<Rightarrow> arr"
  tFrn :: "arr \<Rightarrow> arr"
  tBak :: "arr \<Rightarrow> arr"
  tTop :: "arr \<Rightarrow> arr"
  tBot :: "arr \<Rightarrow> arr"

definition core :: "sfield \<Rightarrow> RectDomain" where
  "core T = coreDomain (gridData T)"

definition computeDiff :: "bool \<Rightarrow> sfield \<Rightarrow> arr \<Rightarrow> sfield \<times> arr" where
  "computeDiff PLANAR T H =
     (let d1 = calcDerivative2xx (derS T) (F T) (\<lambda>c. 0);
          H1 = sliceAdd (core T) H d1;
          d2 = (if PLANAR then d1 else calcDerivative2yy (derS T) (F T) (\<lambda>c. 0));
          H2 = (if PLANAR then H1 else sliceAdd (core T) H1 d2);
          d3 = calcDerivative2zz (derS T) (F T) (\<lambda>c. 0);
          H3 = sliceAdd (core T) H2 d3
      in (T\<lparr>derivTemp := d3\<rparr>, H3))"

definition computeNLin :: "bool \<Rightarrow> sfield \<Rightarrow> vfield \<Rightarrow> arr \<Rightarrow> sfield \<times> arr" where
  "computeNLin PLANAR T V H =
     (let d1 = calcDerivative1_x (derS T) (F T) (\<lambda>c. 0);
          H1 = sliceSubMul (core T) H (Vx_F V) d1;
          d2 = (if PLANAR then d1 else calcDerivative1_y (derS T) (F T) (\<lambda>c. 0));
          H2 = (if PLANAR then H1 else sliceSubMul (core T) H1 (Vy_F V) d2);
          d3 = calcDerivative1_z (derS T) (F T) (\<lambda>c. 0);
          H3 = sliceSubMul (core T) H2 (Vz_F V) d3
      in (T\<lparr>derivTemp := d3\<rparr>, H3))"

definition gradient :: "bool \<Rightarrow> sfield \<Rightarrow> plainvf \<Rightarrow> sfield \<times> plainvf" where
  "gradient PLANAR T gradF =
     (let d1 = calcDerivative1_x (derS T) (F T) (\<lambda>c. 0);
          g1 = gradF\<lparr>Vx := sliceAssign (core T) (Vx gradF) d1\<rparr>;
          d2 = (if PLANAR then d1 else calcDerivative1_y (derS T) (F T) (\<lambda>c. 0));
          g2 = (if PLANAR then g1 else g1\<lparr>Vy := sliceAssign (core T) (Vy g1) d2\<rparr>);
          d3 = calcDerivative1_z (derS T) (F T) (\<lambda>c. 0);
          g3 = g2\<lparr>Vz := sliceAssign (core T) (Vz g2) d3\<rparr>
      in (T\<lparr>derivTemp := d3\<rparr>, g3))"

text \<open>\<^verbatim>\<open>sfield::syncData\<close> is \<^verbatim>\<open>F.syncData()\<close>, that is, \<open>field_syncData\<close>.\<close>

definition wallBC :: "sfield \<Rightarrow> wall \<Rightarrow> arr \<Rightarrow> arr" where
  "wallBC T w =
     (case w of Lft \<Rightarrow> tLft T | Rgt \<Rightarrow> tRgt T | Frn \<Rightarrow> tFrn T
              | Bak \<Rightarrow> tBak T | Top \<Rightarrow> tTop T | Bot \<Rightarrow> tBot T)"

definition imposeBC :: "wall \<Rightarrow> sfield \<times> call list \<Rightarrow> sfield \<times> call list" where
  "imposeBC w s =
     (case s of (T, tr) \<Rightarrow> (T\<lparr>F := wallBC T w (F T)\<rparr>, tr @ [ImposeBC (fieldName T) w]))"

definition imposeBCs :: "bool \<Rightarrow> sfield \<times> call list \<Rightarrow> sfield \<times> call list" where
  "imposeBCs PLANAR s =
     (let s0 = field_syncData s;
          s1 = (if \<not> xPer (inputParams (gridData (fst s)))
                then imposeBC Rgt (imposeBC Lft s0) else s0);
          s2 = (if PLANAR then s1
                else if \<not> yPer (inputParams (gridData (fst s)))
                then imposeBC Bak (imposeBC Frn s1) else s1);
          s3 = imposeBC Top s2
      in imposeBC Bot s3)"

definition sfield_add :: "sfield \<Rightarrow> arr \<Rightarrow> sfield" where
  "sfield_add this a = this\<lparr>F := (\<lambda>c. F this c + a c)\<rparr>"

definition sfield_sub :: "sfield \<Rightarrow> arr \<Rightarrow> sfield" where
  "sfield_sub this a = this\<lparr>F := (\<lambda>c. F this c - a c)\<rparr>"

definition sfield_mul :: "sfield \<Rightarrow> real \<Rightarrow> sfield" where
  "sfield_mul this a = this\<lparr>F := (\<lambda>c. F this c * a)\<rparr>"

definition sfield_assign :: "sfield \<Rightarrow> arr \<Rightarrow> sfield" where
  "sfield_assign this a = this\<lparr>F := a\<rparr>"

definition sfield_assign_real :: "sfield \<Rightarrow> real \<Rightarrow> sfield" where
  "sfield_assign_real this a = this\<lparr>F := (\<lambda>c. a)\<rparr>"

section \<open>eulerCN_d3.cc: the time-step object\<close>

text \<open>
  The members of \<^verbatim>\<open>eulerCN_d3\<close> (most of them inherited from \<^verbatim>\<open>timestep\<close>, which
  is declared in another file) that stay fixed during a time step. The loop
  bounds \<^verbatim>\<open>xSt \<dots> zEn\<close> are set by the base class; they are kept apart from the core
  box here, and the theorems that speak about "every core cell" assume that the loops
  run over the core (section 4.4: "for every interior cell in the core"). The member
  \<^verbatim>\<open>core\<close> of the time-step object is the \<open>coreDomain\<close> of its mesh.
\<close>

record eulerCN_d3 =
  mesh :: grid
  solTime :: real
  dt :: real
  nu :: real
  kappa :: real
  maxIterations :: int
  xSt :: int
  xEn :: int
  ySt :: int
  yEn :: int
  zSt :: int
  zEn :: int
  i2hx :: real
  i2hy :: real
  i2hz :: real
  ihx2 :: real
  ihy2 :: real
  ihz2 :: real

definition setCoefficients :: "eulerCN_d3 \<Rightarrow> eulerCN_d3" where
  "setCoefficients ts =
     (let hx2 = (dXi (mesh ts)) ^ 2;
          hy2 = (dEt (mesh ts)) ^ 2;
          hz2 = (dZt (mesh ts)) ^ 2
      in ts\<lparr>i2hx := 0.5 / dXi (mesh ts),
             i2hy := 0.5 / dEt (mesh ts),
             i2hz := 0.5 / dZt (mesh ts),
             ihx2 := 1 / hx2,
             ihy2 := 1 / hy2,
             ihz2 := 1 / hz2\<rparr>)"

text \<open>
  The conversion \<^verbatim>\<open>int(x)\<close> of a floating-point value discards the fractional part
  (it rounds toward zero).
\<close>

definition int_of_real :: "real \<Rightarrow> int" where
  "int_of_real x = (if 0 \<le> x then \<lfloor>x\<rfloor> else \<lceil>x\<rceil>)"

text \<open>
  The constructor, after the base class has filled in the other members:
  \<^verbatim>\<open>setCoefficients()\<close>, then
  \<^verbatim>\<open>maxIterations = int(std::pow(std::log(coreSize(0)*coreSize(1)*coreSize(2)), 3))\<close>.
  The product is an \<^verbatim>\<open>int\<close>; it is positive and below \<open>2^31\<close> for every sub-domain
  the solver is run on, which the theorems about it assume.
\<close>

definition eulerCN_d3_init :: "eulerCN_d3 \<Rightarrow> eulerCN_d3" where
  "eulerCN_d3_init ts =
     (case coreSize (mesh ts) of (nx, ny, nz) \<Rightarrow>
        (setCoefficients ts)\<lparr>maxIterations := int_of_real ((ln (of_int (nx * ny * nz))) ^ 3)\<rparr>)"

section \<open>eulerCN_d3.cc: the Jacobi solvers\<close>

text \<open>
  How a call ends: it returns, or the program exits with a status (\<^verbatim>\<open>exit(n)\<close>).
  Each case carries the state reached.
\<close>

datatype 's outcome = Returned 's | Exited int 's

text \<open>
  The four solvers \<^verbatim>\<open>solveVx\<close>, \<^verbatim>\<open>solveVy\<close>, \<^verbatim>\<open>solveVz\<close> and \<^verbatim>\<open>solveT\<close> are the
  same text up to the array solved for (\<open>phi\<close>), its static scratch array (\<open>temp\<close>),
  the right-hand side, the diffusion coefficient (\<^verbatim>\<open>nu\<close>, \<^verbatim>\<open>nu\<close>, \<^verbatim>\<open>nu\<close>,
  \<^verbatim>\<open>kappa\<close>), the boundary-condition call and the name in the message. The loop is
  written once, over these.
\<close>

record jacobi_state =
  phi :: arr
  temp :: arr
  trace :: "call list"
  cout :: "string list"

definition loopBox :: "eulerCN_d3 \<Rightarrow> RectDomain" where
  "loopBox ts = \<lparr>lbound = (xSt ts, ySt ts, zSt ts), ubound = (xEn ts, yEn ts, zEn ts)\<rparr>"

text \<open>
  The right-hand side of the assignment in the first loop nest. Its denominator is at
  least one for the values the solver runs with (non-negative step, diffusivity and
  squared metric terms); the quotient is written with the division of the reals.
\<close>

definition jacobiCandidate :: "eulerCN_d3 \<Rightarrow> real \<Rightarrow> arr \<Rightarrow> arr \<Rightarrow> idx \<Rightarrow> real" where
  "jacobiCandidate ts alpha f rhs c =
     (case c of (iX, iY, iZ) \<Rightarrow>
       ((ihx2 ts * xix2 (mesh ts) iX * (f (iX + 1, iY, iZ) + f (iX - 1, iY, iZ)) +
         i2hx ts * xixx (mesh ts) iX * (f (iX + 1, iY, iZ) - f (iX - 1, iY, iZ)) +
         ihy2 ts * ety2 (mesh ts) iY * (f (iX, iY + 1, iZ) + f (iX, iY - 1, iZ)) +
         i2hy ts * etyy (mesh ts) iY * (f (iX, iY + 1, iZ) - f (iX, iY - 1, iZ)) +
         ihz2 ts * ztz2 (mesh ts) iZ * (f (iX, iY, iZ + 1) + f (iX, iY, iZ - 1)) +
         i2hz ts * ztzz (mesh ts) iZ * (f (iX, iY, iZ + 1) - f (iX, iY, iZ - 1))) *
          dt ts * alpha / 2 + rhs (iX, iY, iZ)) /
       (1 + dt ts * alpha *
          (ihx2 ts * xix2 (mesh ts) iX + ihy2 ts * ety2 (mesh ts) iY + ihz2 ts * ztz2 (mesh ts) iZ)))"

text \<open>The right-hand side of the assignment in the second loop nest.\<close>

definition jacobiResidual :: "eulerCN_d3 \<Rightarrow> real \<Rightarrow> arr \<Rightarrow> idx \<Rightarrow> real" where
  "jacobiResidual ts alpha f c =
     (case c of (iX, iY, iZ) \<Rightarrow>
       f (iX, iY, iZ) - 0.5 * dt ts * alpha *
        (xix2 (mesh ts) iX * (f (iX + 1, iY, iZ) - 2 * f (iX, iY, iZ) + f (iX - 1, iY, iZ)) * ihx2 ts +
         xixx (mesh ts) iX * (f (iX + 1, iY, iZ) - f (iX - 1, iY, iZ)) * i2hx ts +
         ety2 (mesh ts) iY * (f (iX, iY + 1, iZ) - 2 * f (iX, iY, iZ) + f (iX, iY - 1, iZ)) * ihy2 ts +
         etyy (mesh ts) iY * (f (iX, iY + 1, iZ) - f (iX, iY - 1, iZ)) * i2hy ts +
         ztz2 (mesh ts) iZ * (f (iX, iY, iZ + 1) - 2 * f (iX, iY, iZ) + f (iX, iY, iZ - 1)) * ihz2 ts +
         ztzz (mesh ts) iZ * (f (iX, iY, iZ + 1) - f (iX, iY, iZ - 1)) * i2hz ts))"

text \<open>
  The body of \<^verbatim>\<open>while (true)\<close> up to the reduction: first loop nest into \<open>temp\<close>,
  whole-array copy of \<open>temp\<close> into the field, boundary conditions, second loop nest,
  \<^verbatim>\<open>temp(core) = abs(temp(core) - rhs(core))\<close>, local maximum over the core, global
  maximum. \<open>otherRanks\<close> gives the local maxima the other ranks contribute to this
  reduction. The result is the new state and \<^verbatim>\<open>gloMax\<close>.
\<close>

definition firstLoop :: "eulerCN_d3 \<Rightarrow> real \<Rightarrow> arr \<Rightarrow> jacobi_state \<Rightarrow> arr" where
  "firstLoop ts alpha rhs st =
     sliceAssign (loopBox ts) (temp st) (jacobiCandidate ts alpha (phi st) rhs)"

definition jacobiSweep ::
  "eulerCN_d3 \<Rightarrow> real \<Rightarrow> (arr \<times> call list \<Rightarrow> arr \<times> call list) \<Rightarrow> (call list \<Rightarrow> real list)
     \<Rightarrow> arr \<Rightarrow> jacobi_state \<Rightarrow> jacobi_state \<times> real" where
  "jacobiSweep ts alpha bc otherRanks rhs st =
     (let temp1 = firstLoop ts alpha rhs st;
          s2 = bc (temp1, trace st);
          temp2 = sliceAssign (loopBox ts) temp1 (jacobiResidual ts alpha (fst s2));
          temp3 = sliceAssign (coreDomain (mesh ts)) temp2 (\<lambda>c. \<bar>temp2 c - rhs c\<bar>);
          locMax = blitz_max (map temp3 (cells (coreDomain (mesh ts))));
          gloMax = MPI_Allreduce_MAX (locMax # otherRanks (snd s2))
      in (\<lparr>phi = fst s2, temp = temp3, trace = snd s2 @ [Allreduce], cout = cout st\<rparr>, gloMax))"

text \<open>
  The failure branch: the message (on rank 0 only), \<^verbatim>\<open>MPI_Finalize()\<close>, and then
  \<^verbatim>\<open>exit(0)\<close> in the loop below.
\<close>

definition abortReport :: "eulerCN_d3 \<Rightarrow> string \<Rightarrow> jacobi_state \<Rightarrow> jacobi_state" where
  "abortReport ts name st =
     st\<lparr>cout := cout st @
            (if rank (mesh ts) = 0
             then [''ERROR: Jacobi iterations for solution of '' @ name @ '' not converging. Aborting'']
             else []),
        trace := trace st @ [Finalize]\<rparr>"

function jacobi ::
  "eulerCN_d3 \<Rightarrow> real \<Rightarrow> string \<Rightarrow> (arr \<times> call list \<Rightarrow> arr \<times> call list)
     \<Rightarrow> (call list \<Rightarrow> real list) \<Rightarrow> arr \<Rightarrow> jacobi_state \<Rightarrow> int \<Rightarrow> jacobi_state outcome" where
  "jacobi ts alpha name bc otherRanks rhs st iterCount =
     (if snd (jacobiSweep ts alpha bc otherRanks rhs st) < cnTolerance (inputParams (mesh ts))
      then Returned (fst (jacobiSweep ts alpha bc otherRanks rhs st))
      else if iterCount + 1 > maxIterations ts
      then Exited 0 (abortReport ts name (fst (jacobiSweep ts alpha bc otherRanks rhs st)))
      else jacobi ts alpha name bc otherRanks rhs
             (fst (jacobiSweep ts alpha bc otherRanks rhs st)) (iterCount + 1))"
  by pat_completeness auto
termination
  by (relation "measure (\<lambda>(ts, alpha, name, bc, otherRanks, rhs, st, iterCount).
                   nat (maxIterations ts + 1 - iterCount))") auto

declare jacobi.simps [simp del]

text \<open>
  Counting sweeps: the state after \<open>n\<close> passes through the loop body, the global
  maximum found by the pass after these, the state an outcome carries, and the number
  of reductions logged in a trace (each pass logs one).
\<close>

definition sweeps ::
  "eulerCN_d3 \<Rightarrow> real \<Rightarrow> (arr \<times> call list \<Rightarrow> arr \<times> call list) \<Rightarrow> (call list \<Rightarrow> real list)
     \<Rightarrow> arr \<Rightarrow> nat \<Rightarrow> jacobi_state \<Rightarrow> jacobi_state" where
  "sweeps ts alpha bc otherRanks rhs n st =
     ((\<lambda>s. fst (jacobiSweep ts alpha bc otherRanks rhs s)) ^^ n) st"

definition residualAt ::
  "eulerCN_d3 \<Rightarrow> real \<Rightarrow> (arr \<times> call list \<Rightarrow> arr \<times> call list) \<Rightarrow> (call list \<Rightarrow> real list)
     \<Rightarrow> arr \<Rightarrow> nat \<Rightarrow> jacobi_state \<Rightarrow> real" where
  "residualAt ts alpha bc otherRanks rhs n st =
     snd (jacobiSweep ts alpha bc otherRanks rhs (sweeps ts alpha bc otherRanks rhs n st))"

fun stateOf :: "'s outcome \<Rightarrow> 's" where
  "stateOf (Returned s) = s"
| "stateOf (Exited n s) = s"

definition reductions :: "call list \<Rightarrow> nat" where
  "reductions tr = length (filter (\<lambda>c. c = Allreduce) tr)"

text \<open>
  The descriptions the specification gives of one sweep: the discrete Laplacian in its
  split form, its neighbour-sum part (the Laplacian without the terms in the centre
  value), the candidate value and the residual of a cell.
\<close>

definition spec_laplacian :: "eulerCN_d3 \<Rightarrow> arr \<Rightarrow> idx \<Rightarrow> real" where
  "spec_laplacian ts f c =
     (case c of (i, j, k) \<Rightarrow>
        xix2 (mesh ts) i * (f (i + 1, j, k) - 2 * f (i, j, k) + f (i - 1, j, k)) * ihx2 ts
      + xixx (mesh ts) i * (f (i + 1, j, k) - f (i - 1, j, k)) * i2hx ts
      + ety2 (mesh ts) j * (f (i, j + 1, k) - 2 * f (i, j, k) + f (i, j - 1, k)) * ihy2 ts
      + etyy (mesh ts) j * (f (i, j + 1, k) - f (i, j - 1, k)) * i2hy ts
      + ztz2 (mesh ts) k * (f (i, j, k + 1) - 2 * f (i, j, k) + f (i, j, k - 1)) * ihz2 ts
      + ztzz (mesh ts) k * (f (i, j, k + 1) - f (i, j, k - 1)) * i2hz ts)"

definition spec_diag :: "eulerCN_d3 \<Rightarrow> idx \<Rightarrow> real" where
  "spec_diag ts c =
     (case c of (i, j, k) \<Rightarrow>
        xix2 (mesh ts) i * ihx2 ts + ety2 (mesh ts) j * ihy2 ts + ztz2 (mesh ts) k * ihz2 ts)"

definition spec_neighbourSum :: "eulerCN_d3 \<Rightarrow> arr \<Rightarrow> idx \<Rightarrow> real" where
  "spec_neighbourSum ts f c = spec_laplacian ts f c + 2 * f c * spec_diag ts c"

definition spec_candidate :: "eulerCN_d3 \<Rightarrow> real \<Rightarrow> arr \<Rightarrow> arr \<Rightarrow> idx \<Rightarrow> real" where
  "spec_candidate ts alpha f rhs c =
     (spec_neighbourSum ts f c * (alpha * dt ts / 2) + rhs c) / (1 + alpha * dt ts * spec_diag ts c)"

definition spec_residual :: "eulerCN_d3 \<Rightarrow> real \<Rightarrow> arr \<Rightarrow> arr \<Rightarrow> idx \<Rightarrow> real" where
  "spec_residual ts alpha f rhs c = f c - (alpha * dt ts / 2) * spec_laplacian ts f c - rhs c"

section \<open>eulerCN_d3.cc: the state of a time step\<close>

text \<open>
  Everything a call of \<^verbatim>\<open>timeAdvance\<close> reads and writes: the fields \<^verbatim>\<open>V\<close>, \<^verbatim>\<open>P\<close>
  and \<^verbatim>\<open>T\<close> passed by reference (the variant without a scalar leaves \<open>T\<close> alone), the
  members \<^verbatim>\<open>Pp\<close>, \<^verbatim>\<open>mgRHS\<close> and \<^verbatim>\<open>pressureGradient\<close>, the function-local statics
  (\<^verbatim>\<open>nseRHS\<close>, \<^verbatim>\<open>tmpRHS\<close>, both set to zero when a call begins, and the four scratch
  arrays of the solvers), \<^verbatim>\<open>tsWriter.subgridEnergy\<close>, the trace of collaborator calls
  and the lines written to \<^verbatim>\<open>std::cout\<close> by this rank.
\<close>

record world =
  V :: vfield
  P :: sfield
  T :: sfield
  Pp :: sfield
  mgRHS :: arr
  pressureGradient :: plainvf
  nseRHS :: plainvf
  tmpRHS :: arr
  tempVx :: arr
  tempVy :: arr
  tempVz :: arr
  tempT :: arr
  subgridEnergy :: real
  calls :: "call list"
  stdout :: "string list"

text \<open>
  The collaborators of the time step that are defined in other files, as
  functions from the arguments they are called on (and, for those that talk to other
  ranks, the trace at the time of the call) to what they leave in the objects they
  write. The two overloads of \<^verbatim>\<open>computeSG\<close> return the sub-grid energy with the
  right-hand sides they have added to.
\<close>

record collab =
  V_computeDiff :: "vfield \<Rightarrow> plainvf \<Rightarrow> plainvf"
  V_computeNLin :: "vfield \<Rightarrow> vfield \<Rightarrow> plainvf \<Rightarrow> plainvf"
  V_divergence :: "vfield \<Rightarrow> arr \<Rightarrow> arr"
  V_imposeVxBC :: "call list \<Rightarrow> arr \<Rightarrow> arr"
  V_imposeVyBC :: "call list \<Rightarrow> arr \<Rightarrow> arr"
  V_imposeVzBC :: "call list \<Rightarrow> arr \<Rightarrow> arr"
  V_imposeBCs :: "call list \<Rightarrow> vfield \<Rightarrow> vfield"
  vForcing_addForcing :: "plainvf \<Rightarrow> plainvf"
  tForcing_addForcing :: "arr \<Rightarrow> arr"
  sgsLES_computeSG :: "plainvf \<Rightarrow> vfield \<Rightarrow> real \<times> plainvf"
  sgsLES_computeSG_T :: "plainvf \<Rightarrow> arr \<Rightarrow> vfield \<Rightarrow> sfield \<Rightarrow> real \<times> plainvf \<times> arr"
  nseRHS_syncData :: "call list \<Rightarrow> plainvf \<Rightarrow> plainvf"
  tmpRHS_syncData :: "call list \<Rightarrow> arr \<Rightarrow> arr"
  mgSolver_mgSolve :: "arr \<Rightarrow> arr \<Rightarrow> arr"
  otherRanks :: "call list \<Rightarrow> real list"

text \<open>
  Modelled from the spec: \<^verbatim>\<open>plainsf::operator *= (real)\<close>, of \<^verbatim>\<open>plainsf.cc\<close>
  (another file of the repository), is the pointwise operation of section 4.1, as
  \<^verbatim>\<open>plainvf.cc\<close> and \<^verbatim>\<open>sfield.cc\<close> define it for their classes.
\<close>

definition plainsf_mul :: "arr \<Rightarrow> real \<Rightarrow> arr" where
  "plainsf_mul this a = (\<lambda>c. this c * a)"

text \<open>
  Modelled from the spec: \<^verbatim>\<open>plainsf::operator += (sfield &)\<close>, of \<^verbatim>\<open>plainsf.cc\<close>,
  is the pointwise sum of section 4.1.
\<close>

definition plainsf_add_sfield :: "arr \<Rightarrow> sfield \<Rightarrow> arr" where
  "plainsf_add_sfield this a = (\<lambda>c. this c + F a c)"

text \<open>
  Modelled from the spec: \<^verbatim>\<open>vfield::operator -= (plainvf &)\<close>, of \<^verbatim>\<open>vfield.cc\<close>
  (another file of the repository), is the pointwise difference of section 4.1,
  component by component (\<open>V \<minus>= dt \<cdot> \<nabla>Pp\<close> in section 4.3).
\<close>

definition vfield_sub_plainvf :: "vfield \<Rightarrow> plainvf \<Rightarrow> vfield" where
  "vfield_sub_plainvf this a =
     \<lparr>Vx_F = (\<lambda>c. Vx_F this c - Vx a c),
      Vy_F = (\<lambda>c. Vy_F this c - Vy a c),
      Vz_F = (\<lambda>c. Vz_F this c - Vz a c)\<rparr>"

text \<open>Statements in sequence.\<close>

definition run :: "('s \<Rightarrow> 's) list \<Rightarrow> 's \<Rightarrow> 's" where
  "run stmts w = fold (\<lambda>stmt s. stmt s) stmts w"

fun mapOutcome :: "('a \<Rightarrow> 'b) \<Rightarrow> 'a outcome \<Rightarrow> 'b outcome" where
  "mapOutcome f (Returned s) = Returned (f s)"
| "mapOutcome f (Exited n s) = Exited n (f s)"

fun andThen :: "'s outcome \<Rightarrow> ('s \<Rightarrow> 's outcome) \<Rightarrow> 's outcome" where
  "andThen (Returned s) f = f s"
| "andThen (Exited n s) f = Exited n s"

section \<open>eulerCN_d3.cc: the four solvers\<close>

text \<open>
  Modelled from the spec: \<^verbatim>\<open>V.imposeVxBC()\<close> belongs to \<^verbatim>\<open>vfield\<close>, defined in
  another file; by section 4.4 it imposes the wall conditions of the x component, so it
  rewrites the array of that component (after exchanging halos, which is why it takes
  the trace).
\<close>

definition bcVx :: "collab \<Rightarrow> arr \<times> call list \<Rightarrow> arr \<times> call list" where
  "bcVx e s = (V_imposeVxBC e (snd s) (fst s), snd s @ [ImposeVxBC])"

text \<open>Modelled from the spec: \<^verbatim>\<open>V.imposeVyBC()\<close>, as \<open>bcVx\<close> for the y component.\<close>

definition bcVy :: "collab \<Rightarrow> arr \<times> call list \<Rightarrow> arr \<times> call list" where
  "bcVy e s = (V_imposeVyBC e (snd s) (fst s), snd s @ [ImposeVyBC])"

text \<open>Modelled from the spec: \<^verbatim>\<open>V.imposeVzBC()\<close>, as \<open>bcVx\<close> for the z component.\<close>

definition bcVz :: "collab \<Rightarrow> arr \<times> call list \<Rightarrow> arr \<times> call list" where
  "bcVz e s = (V_imposeVzBC e (snd s) (fst s), snd s @ [ImposeVzBC])"

text \<open>
  \<^verbatim>\<open>T.imposeBCs()\<close> is the function of \<^verbatim>\<open>sfield.cc\<close> above, in the build without
  \<^verbatim>\<open>PLANAR\<close> (the three-dimensional solver), applied to \<open>T\<close> holding the array.
\<close>

definition bcT :: "sfield \<Rightarrow> arr \<times> call list \<Rightarrow> arr \<times> call list" where
  "bcT T0 s = (case imposeBCs False (T0\<lparr>F := fst s\<rparr>, snd s) of (T1, tr) \<Rightarrow> (F T1, tr))"

definition putVx :: "world \<Rightarrow> jacobi_state \<Rightarrow> world" where
  "putVx w st =
     w\<lparr>V := (V w)\<lparr>Vx_F := phi st\<rparr>, tempVx := temp st, calls := trace st, stdout := cout st\<rparr>"

definition putVy :: "world \<Rightarrow> jacobi_state \<Rightarrow> world" where
  "putVy w st =
     w\<lparr>V := (V w)\<lparr>Vy_F := phi st\<rparr>, tempVy := temp st, calls := trace st, stdout := cout st\<rparr>"

definition putVz :: "world \<Rightarrow> jacobi_state \<Rightarrow> world" where
  "putVz w st =
     w\<lparr>V := (V w)\<lparr>Vz_F := phi st\<rparr>, tempVz := temp st, calls := trace st, stdout := cout st\<rparr>"

definition putT :: "world \<Rightarrow> jacobi_state \<Rightarrow> world" where
  "putT w st =
     w\<lparr>T := (T w)\<lparr>F := phi st\<rparr>, tempT := temp st, calls := trace st, stdout := cout st\<rparr>"

definition solveVx :: "eulerCN_d3 \<Rightarrow> collab \<Rightarrow> world \<Rightarrow> world outcome" where
  "solveVx ts e w =
     mapOutcome (putVx w)
       (jacobi ts (nu ts) ''Vx'' (bcVx e) (otherRanks e) (Vx (nseRHS w))
          \<lparr>phi = Vx_F (V w), temp = tempVx w, trace = calls w, cout = stdout w\<rparr> 0)"

definition solveVy :: "eulerCN_d3 \<Rightarrow> collab \<Rightarrow> world \<Rightarrow> world outcome" where
  "solveVy ts e w =
     mapOutcome (putVy w)
       (jacobi ts (nu ts) ''Vy'' (bcVy e) (otherRanks e) (Vy (nseRHS w))
          \<lparr>phi = Vy_F (V w), temp = tempVy w, trace = calls w, cout = stdout w\<rparr> 0)"

definition solveVz :: "eulerCN_d3 \<Rightarrow> collab \<Rightarrow> world \<Rightarrow> world outcome" where
  "solveVz ts e w =
     mapOutcome (putVz w)
       (jacobi ts (nu ts) ''Vz'' (bcVz e) (otherRanks e) (Vz (nseRHS w))
          \<lparr>phi = Vz_F (V w), temp = tempVz w, trace = calls w, cout = stdout w\<rparr> 0)"

definition solveT :: "eulerCN_d3 \<Rightarrow> collab \<Rightarrow> world \<Rightarrow> world outcome" where
  "solveT ts e w =
     mapOutcome (putT w)
       (jacobi ts (kappa ts) ''T'' (bcT (T w)) (otherRanks e) (tmpRHS w)
          \<lparr>phi = F (T w), temp = tempT w, trace = calls w, cout = stdout w\<rparr> 0)"

section \<open>eulerCN_d3.cc: timeAdvance\<close>

text \<open>
  The build modelled is the solver's own: neither \<^verbatim>\<open>PLANAR\<close> (this is the
  three-dimensional scheme) nor \<^verbatim>\<open>TEST_POISSON\<close> (the unit test of the multigrid
  solver) is defined. Each function below is a run of consecutive statements of
  \<^verbatim>\<open>timeAdvance\<close>; \<open>timeAdvance\<close> and \<open>timeAdvance_T\<close> put them in sequence.
\<close>

text \<open>Diffusion, advection and forcing of the momentum equation (both variants).\<close>

definition assembleV :: "eulerCN_d3 \<Rightarrow> collab \<Rightarrow> world \<Rightarrow> world" where
  "assembleV ts e =
     run [\<lambda>w. w\<lparr>nseRHS := plainvf_assign_real 0\<rparr>,
          \<lambda>w. w\<lparr>nseRHS := V_computeDiff e (V w) (nseRHS w)\<rparr>,
          \<lambda>w. w\<lparr>nseRHS := plainvf_mul (nseRHS w) (nu ts / 2)\<rparr>,
          \<lambda>w. w\<lparr>nseRHS := V_computeNLin e (V w) (V w) (nseRHS w)\<rparr>,
          \<lambda>w. w\<lparr>nseRHS := vForcing_addForcing e (nseRHS w)\<rparr>]"

text \<open>The same for both equations, in the order of the variant with a scalar.\<close>

definition assembleVT :: "eulerCN_d3 \<Rightarrow> collab \<Rightarrow> world \<Rightarrow> world" where
  "assembleVT ts e =
     run [\<lambda>w. w\<lparr>nseRHS := plainvf_assign_real 0\<rparr>,
          \<lambda>w. w\<lparr>tmpRHS := (\<lambda>c. 0)\<rparr>,
          \<lambda>w. w\<lparr>nseRHS := V_computeDiff e (V w) (nseRHS w)\<rparr>,
          \<lambda>w. w\<lparr>nseRHS := plainvf_mul (nseRHS w) (nu ts / 2)\<rparr>,
          \<lambda>w. (case computeDiff False (T w) (tmpRHS w) of (T1, H) \<Rightarrow> w\<lparr>T := T1, tmpRHS := H\<rparr>),
          \<lambda>w. w\<lparr>tmpRHS := plainsf_mul (tmpRHS w) (kappa ts / 2)\<rparr>,
          \<lambda>w. w\<lparr>nseRHS := V_computeNLin e (V w) (V w) (nseRHS w)\<rparr>,
          \<lambda>w. (case computeNLin False (T w) (V w) (tmpRHS w) of (T1, H) \<Rightarrow> w\<lparr>T := T1, tmpRHS := H\<rparr>),
          \<lambda>w. w\<lparr>nseRHS := vForcing_addForcing e (nseRHS w)\<rparr>,
          \<lambda>w. w\<lparr>tmpRHS := tForcing_addForcing e (tmpRHS w)\<rparr>]"

text \<open>The sub-grid stress block of \<^verbatim>\<open>timeAdvance(V, P)\<close>.\<close>

definition lesStep :: "eulerCN_d3 \<Rightarrow> collab \<Rightarrow> world \<Rightarrow> world" where
  "lesStep ts e w =
     (if lesModel (inputParams (mesh ts)) \<noteq> 0 \<and> solTime ts > 5 * tStp (inputParams (mesh ts))
      then (case sgsLES_computeSG e (nseRHS w) (V w) of
              (subgridKE, rhs) \<Rightarrow>
                w\<lparr>nseRHS := rhs, calls := calls w @ [ComputeSG_V], subgridEnergy := subgridKE\<rparr>)
      else w)"

text \<open>The sub-grid stress block of \<^verbatim>\<open>timeAdvance(V, P, T)\<close>.\<close>

definition lesStep_T :: "eulerCN_d3 \<Rightarrow> collab \<Rightarrow> world \<Rightarrow> world" where
  "lesStep_T ts e w =
     (if lesModel (inputParams (mesh ts)) \<noteq> 0 \<and> solTime ts > 5 * tStp (inputParams (mesh ts))
      then (if lesModel (inputParams (mesh ts)) = 1
            then (case sgsLES_computeSG e (nseRHS w) (V w) of
                    (subgridKE, rhs) \<Rightarrow>
                      w\<lparr>nseRHS := rhs, calls := calls w @ [ComputeSG_V],
                        subgridEnergy := subgridKE\<rparr>)
            else if lesModel (inputParams (mesh ts)) = 2
            then (case sgsLES_computeSG_T e (nseRHS w) (tmpRHS w) (V w) (T w) of
                    (subgridKE, rhs, trhs) \<Rightarrow>
                      w\<lparr>nseRHS := rhs, tmpRHS := trhs, calls := calls w @ [ComputeSG_VT],
                        subgridEnergy := subgridKE\<rparr>)
            else w\<lparr>subgridEnergy := 0\<rparr>)
      else w)"

text \<open>Pressure gradient, explicit Euler update and halo exchange of the momentum side.\<close>

definition finishV :: "eulerCN_d3 \<Rightarrow> collab \<Rightarrow> world \<Rightarrow> world" where
  "finishV ts e =
     run [\<lambda>w. w\<lparr>pressureGradient := plainvf_assign_real 0\<rparr>,
          \<lambda>w. (case gradient False (P w) (pressureGradient w) of
                  (P1, g) \<Rightarrow> w\<lparr>P := P1, pressureGradient := g\<rparr>),
          \<lambda>w. w\<lparr>nseRHS := plainvf_sub (nseRHS w) (pressureGradient w)\<rparr>,
          \<lambda>w. w\<lparr>nseRHS := plainvf_mul (nseRHS w) (dt ts)\<rparr>,
          \<lambda>w. w\<lparr>nseRHS := plainvf_add_vfield (nseRHS w) (V w)\<rparr>]"

definition finishT :: "eulerCN_d3 \<Rightarrow> collab \<Rightarrow> world \<Rightarrow> world" where
  "finishT ts e =
     run [\<lambda>w. w\<lparr>tmpRHS := plainsf_mul (tmpRHS w) (dt ts)\<rparr>,
          \<lambda>w. w\<lparr>tmpRHS := plainsf_add_sfield (tmpRHS w) (T w)\<rparr>]"

definition syncV :: "collab \<Rightarrow> world \<Rightarrow> world" where
  "syncV e w =
     w\<lparr>nseRHS := nseRHS_syncData e (calls w) (nseRHS w), calls := calls w @ [SyncData ''nseRHS'']\<rparr>"

definition syncT :: "collab \<Rightarrow> world \<Rightarrow> world" where
  "syncT e w =
     w\<lparr>tmpRHS := tmpRHS_syncData e (calls w) (tmpRHS w), calls := calls w @ [SyncData ''tmpRHS'']\<rparr>"

text \<open>
  The pressure stage, from \<^verbatim>\<open>V.divergence(mgRHS)\<close> to the last statement of
  \<^verbatim>\<open>timeAdvance\<close>: the scaled divergence, the multigrid solve for \<^verbatim>\<open>Pp\<close>, its halo
  exchange, \<^verbatim>\<open>P += Pp\<close>, the gradient update of \<^verbatim>\<open>V\<close> and the boundary conditions of
  \<^verbatim>\<open>V\<close>, \<^verbatim>\<open>P\<close> and, in the variant with a scalar (\<open>withT\<close>), of \<^verbatim>\<open>T\<close>. The
  statements are the same in both variants and none of them is guarded. The factor
  \<^verbatim>\<open>1.0/dt\<close> is written as the quotient of the reals; for \<open>dt = 0\<close> the source's factor
  is the floating-point infinity, which is not a real number, so what the model stores
  into \<^verbatim>\<open>mgRHS\<close> for \<open>dt = 0\<close> does not describe the source, and nothing below is
  derived from it.
\<close>

definition project :: "eulerCN_d3 \<Rightarrow> collab \<Rightarrow> bool \<Rightarrow> world \<Rightarrow> world" where
  "project ts e withT =
     run ([\<lambda>w. w\<lparr>mgRHS := V_divergence e (V w) (mgRHS w)\<rparr>,
           \<lambda>w. w\<lparr>mgRHS := plainsf_mul (mgRHS w) (1 / dt ts)\<rparr>,
           \<lambda>w. w\<lparr>Pp := (Pp w)\<lparr>F := mgSolver_mgSolve e (F (Pp w)) (mgRHS w)\<rparr>\<rparr>,
           \<lambda>w. (case field_syncData (Pp w, calls w) of (Pp1, tr) \<Rightarrow> w\<lparr>Pp := Pp1, calls := tr\<rparr>),
           \<lambda>w. w\<lparr>P := sfield_add (P w) (F (Pp w))\<rparr>,
           \<lambda>w. (case gradient False (Pp w) (pressureGradient w) of
                   (Pp1, g) \<Rightarrow> w\<lparr>Pp := Pp1, pressureGradient := g\<rparr>),
           \<lambda>w. w\<lparr>pressureGradient := plainvf_mul (pressureGradient w) (dt ts)\<rparr>,
           \<lambda>w. w\<lparr>V := vfield_sub_plainvf (V w) (pressureGradient w)\<rparr>,
           \<lambda>w. w\<lparr>V := V_imposeBCs e (calls w) (V w), calls := calls w @ [ImposeVBCs]\<rparr>,
           \<lambda>w. (case imposeBCs False (P w, calls w) of (P1, tr) \<Rightarrow> w\<lparr>P := P1, calls := tr\<rparr>)]
          @ (if withT
             then [\<lambda>w. (case imposeBCs False (T w, calls w) of
                           (T1, tr) \<Rightarrow> w\<lparr>T := T1, calls := tr\<rparr>)]
             else []))"

text \<open>\<^verbatim>\<open>void eulerCN_d3::timeAdvance(vfield &V, sfield &P)\<close>\<close>

definition timeAdvance :: "eulerCN_d3 \<Rightarrow> collab \<Rightarrow> world \<Rightarrow> world outcome" where
  "timeAdvance ts e w =
     andThen (solveVx ts e (syncV e (finishV ts e (lesStep ts e (assembleV ts e w)))))
       (\<lambda>w. andThen (solveVy ts e w)
         (\<lambda>w. andThen (solveVz ts e w)
           (\<lambda>w. Returned (project ts e False w))))"

text \<open>\<^verbatim>\<open>void eulerCN_d3::timeAdvance(vfield &V, sfield &P, sfield &T)\<close>\<close>

definition timeAdvance_T :: "eulerCN_d3 \<Rightarrow> collab \<Rightarrow> world \<Rightarrow> world outcome" where
  "timeAdvance_T ts e w =
     andThen
       (solveVx ts e
          (syncT e (syncV e (finishT ts e (finishV ts e (lesStep_T ts e (assembleVT ts e w)))))))
       (\<lambda>w. andThen (solveVy ts e w)
         (\<lambda>w. andThen (solveVz ts e w)
           (\<lambda>w. andThen (solveT ts e w)
             (\<lambda>w. Returned (project ts e True w)))))"

fun isReturned :: "'s outcome \<Rightarrow> bool" where
  "isReturned (Returned s) = True"
| "isReturned (Exited n s) = False"

text \<open>
  What the halo exchange and the boundary objects are for: they write pad cells and wall
  slices, which lie outside the core. \<open>keepsCore d f\<close> says that \<open>f\<close> leaves the cells
  of \<open>d\<close> as they are; \<open>haloOnly\<close> says so of the exchanges of the right-hand sides
  and the boundary calls of the velocity, \<open>wallsOnly\<close> of the exchange and the boundary
  objects of a scalar field; \<open>coreSame d a b\<close> says that two arrays agree on \<open>d\<close>.
\<close>

definition keepsCore :: "RectDomain \<Rightarrow> (arr \<Rightarrow> arr) \<Rightarrow> bool" where
  "keepsCore d f = (\<forall>a c. inDom d c \<longrightarrow> f a c = a c)"

definition haloOnly :: "eulerCN_d3 \<Rightarrow> collab \<Rightarrow> bool" where
  "haloOnly ts e =
     (let d = coreDomain (mesh ts)
      in (\<forall>tr. keepsCore d (V_imposeVxBC e tr) \<and> keepsCore d (V_imposeVyBC e tr)
               \<and> keepsCore d (V_imposeVzBC e tr) \<and> keepsCore d (tmpRHS_syncData e tr))
         \<and> (\<forall>tr r c. inDom d c \<longrightarrow>
                Vx (nseRHS_syncData e tr r) c = Vx r c
              \<and> Vy (nseRHS_syncData e tr r) c = Vy r c
              \<and> Vz (nseRHS_syncData e tr r) c = Vz r c))"

definition wallsOnly :: "RectDomain \<Rightarrow> sfield \<Rightarrow> bool" where
  "wallsOnly d sf =
     ((\<forall>tr. keepsCore d (mpiHandle_syncData sf tr)) \<and> (\<forall>wl. keepsCore d (wallBC sf wl)))"

definition coreSame :: "RectDomain \<Rightarrow> arr \<Rightarrow> arr \<Rightarrow> bool" where
  "coreSame d a b = (\<forall>c. inDom d c \<longrightarrow> a c = b c)"

text \<open>
  \<open>predicted d w0 w\<close>: in \<open>w\<close> the core cells of the velocity and of the scalar, and the
  whole pressure array, are as they were in \<open>w0\<close>.
\<close>

definition predicted :: "RectDomain \<Rightarrow> world \<Rightarrow> world \<Rightarrow> bool" where
  "predicted d w0 w =
     (coreSame d (Vx_F (V w)) (Vx_F (V w0)) \<and> coreSame d (Vy_F (V w)) (Vy_F (V w0))
      \<and> coreSame d (Vz_F (V w)) (Vz_F (V w0)) \<and> coreSame d (F (T w)) (F (T w0))
      \<and> F (P w) = F (P w0))"

text \<open>
  With a step of length zero the right-hand sides handed to the solvers agree with the
  fields on the core: \<open>rhsIsV\<close> for the momentum side, \<open>rhsIsT\<close> for the scalar (whose
  exchange and boundary objects write outside the core only).
\<close>

definition rhsIsV :: "RectDomain \<Rightarrow> world \<Rightarrow> world \<Rightarrow> bool" where
  "rhsIsV d w0 w =
     (coreSame d (Vx (nseRHS w)) (Vx_F (V w0)) \<and> coreSame d (Vy (nseRHS w)) (Vy_F (V w0))
      \<and> coreSame d (Vz (nseRHS w)) (Vz_F (V w0)))"

definition rhsIsT :: "RectDomain \<Rightarrow> world \<Rightarrow> world \<Rightarrow> bool" where
  "rhsIsT d w0 w = (coreSame d (tmpRHS w) (F (T w0)) \<and> wallsOnly d (T w))"

text \<open>The calls of the sub-grid model in a trace.\<close>

definition lesCalls :: "call list \<Rightarrow> call list" where
  "lesCalls tr = filter (\<lambda>c. c = ComputeSG_V \<or> c = ComputeSG_VT) tr"

text \<open>
  A boundary-condition call that logs no call of the sub-grid model, and what a later
  stage keeps of the sub-grid block: its calls and the stored energy.
\<close>

definition quietBC :: "(arr \<times> call list \<Rightarrow> arr \<times> call list) \<Rightarrow> bool" where
  "quietBC bc = (\<forall>s. lesCalls (snd (bc s)) = lesCalls (snd s))"

definition lesKept :: "world \<Rightarrow> world \<Rightarrow> bool" where
  "lesKept w w' = (lesCalls (calls w') = lesCalls (calls w) \<and> subgridEnergy w' = subgridEnergy w)"

section \<open>A small sub-domain\<close>

text \<open>
  The concrete inputs of the examples below: one rank whose core is the single cell
  \<open>(1, 1, 1)\<close>, padded by one layer on every side, on a uniform grid of spacing one.
\<close>

definition exParams :: parser where
  "exParams =
     \<lparr>xPer = False, yPer = True, zPer = False, lesModel = 2,
      cnTolerance = 1 / 1000, tStp = 1 / 100\<rparr>"

definition exGrid :: grid where
  "exGrid =
     \<lparr>inputParams = exParams, rank = 0,
      coreDomain = \<lparr>lbound = (1, 1, 1), ubound = (1, 1, 1)\<rparr>,
      fullDomain = \<lparr>lbound = (0, 0, 0), ubound = (2, 2, 2)\<rparr>,
      fullSize = (3, 3, 3), coreSize = (1, 1, 1),
      xix2 = (\<lambda>i. 1), xixx = (\<lambda>i. 0), ety2 = (\<lambda>j. 1), etyy = (\<lambda>j. 0),
      ztz2 = (\<lambda>k. 1), ztzz = (\<lambda>k. 0), dXi = 1, dEt = 1, dZt = 1\<rparr>"

definition exField :: "arr \<Rightarrow> field" where
  "exField a = \<lparr>fieldName = ''f'', gridData = exGrid, F = a, mpiHandle_syncData = (\<lambda>tr x. x)\<rparr>"

definition exDer :: derivative where
  "exDer =
     \<lparr>calcDerivative1_x = (\<lambda>f d c. 1), calcDerivative1_y = (\<lambda>f d c. 2),
      calcDerivative1_z = (\<lambda>f d c. 3), calcDerivative2xx = (\<lambda>f d c. 4),
      calcDerivative2yy = (\<lambda>f d c. 5), calcDerivative2zz = (\<lambda>f d c. 6)\<rparr>"

definition exSfield :: "string \<Rightarrow> arr \<Rightarrow> sfield" where
  "exSfield name a =
     \<lparr>fieldName = name, gridData = exGrid, F = a, mpiHandle_syncData = (\<lambda>tr x. x),
      derS = exDer, derivTemp = (\<lambda>c. 0),
      tLft = (\<lambda>x. x), tRgt = (\<lambda>x. x), tFrn = (\<lambda>x. x),
      tBak = (\<lambda>x. x), tTop = (\<lambda>x. x), tBot = (\<lambda>x. x)\<rparr>"

text \<open>
  A scalar field on this grid whose halo exchange and wall objects each leave a
  different mark on the array, so that the order in which they are applied shows.
\<close>

definition exWalls :: sfield where
  "exWalls = (exSfield ''T'' (\<lambda>c. 0))
     \<lparr>mpiHandle_syncData := (\<lambda>tr x c. x c + 1),
      tLft := (\<lambda>x c. 2 * x c), tRgt := (\<lambda>x c. x c + 3), tFrn := (\<lambda>x c. 0), tBak := (\<lambda>x c. 0),
      tTop := (\<lambda>x c. 5 * x c), tBot := (\<lambda>x c. x c + 7)\<rparr>"

text \<open>
  The time-step object the constructor builds on this grid (one core cell, so
  \<^verbatim>\<open>maxIterations\<close> is \<open>0\<close>), at time \<open>1\<close> with step \<open>1\<close> and unit diffusivities.
\<close>

definition exTs0 :: eulerCN_d3 where
  "exTs0 =
     \<lparr>mesh = exGrid, solTime = 1, dt = 1, nu = 1, kappa = 1, maxIterations = 0,
      xSt = 1, xEn = 1, ySt = 1, yEn = 1, zSt = 1, zEn = 1,
      i2hx = 0, i2hy = 0, i2hz = 0, ihx2 = 0, ihy2 = 0, ihz2 = 0\<rparr>"

definition exTs :: eulerCN_d3 where
  "exTs = eulerCN_d3_init exTs0"

text \<open>
  Collaborators that leave what they are handed as it is (a single rank, no forcing),
  with a sub-grid model that reports the energies \<open>7\<close> and \<open>9\<close>.
\<close>

definition exEnv :: collab where
  "exEnv =
     \<lparr>V_computeDiff = (\<lambda>v r. r), V_computeNLin = (\<lambda>v u r. r), V_divergence = (\<lambda>v m. m),
      V_imposeVxBC = (\<lambda>tr a. a), V_imposeVyBC = (\<lambda>tr a. a), V_imposeVzBC = (\<lambda>tr a. a),
      V_imposeBCs = (\<lambda>tr v. v),
      vForcing_addForcing = (\<lambda>r. r), tForcing_addForcing = (\<lambda>h. h),
      sgsLES_computeSG = (\<lambda>r v. (7, r)), sgsLES_computeSG_T = (\<lambda>r h v t. (9, r, h)),
      nseRHS_syncData = (\<lambda>tr r. r), tmpRHS_syncData = (\<lambda>tr h. h),
      mgSolver_mgSolve = (\<lambda>p r. r), otherRanks = (\<lambda>tr. [])\<rparr>"

definition exWorld :: world where
  "exWorld =
     \<lparr>V = \<lparr>Vx_F = (\<lambda>c. 1), Vy_F = (\<lambda>c. 1), Vz_F = (\<lambda>c. 1)\<rparr>,
      P = exSfield ''P'' (\<lambda>c. 0), T = exSfield ''T'' (\<lambda>c. 1), Pp = exSfield ''Pp'' (\<lambda>c. 0),
      mgRHS = (\<lambda>c. 0), pressureGradient = plainvf_assign_real 0,
      nseRHS = plainvf_assign_real 2, tmpRHS = (\<lambda>c. 2),
      tempVx = (\<lambda>c. 0), tempVy = (\<lambda>c. 0), tempVz = (\<lambda>c. 0), tempT = (\<lambda>c. 0),
      subgridEnergy = 0, calls = [], stdout = []\<rparr>"

definition exState :: jacobi_state where
  "exState = \<lparr>phi = (\<lambda>c. 1), temp = (\<lambda>c. 0), trace = [], cout = []\<rparr>"

section \<open>Well-formed boxes\<close>

definition nonEmpty :: "RectDomain \<Rightarrow> bool" where
  "nonEmpty d =
     (case lbound d of (x0, y0, z0) \<Rightarrow>
      case ubound d of (x1, y1, z1) \<Rightarrow> x0 \<le> x1 \<and> y0 \<le> y1 \<and> z0 \<le> z1)"

section \<open>Properties\<close>

subsection \<open>Boxes\<close>

lemma set_cells: "set (cells d) = {c. inDom d c}"
proof -
  obtain x0 y0 z0 where l: "lbound d = (x0, y0, z0)" by (cases "lbound d") auto
  obtain x1 y1 z1 where u: "ubound d = (x1, y1, z1)" by (cases "ubound d") auto
  show ?thesis by (auto simp: cells_def inDom_def l u image_iff)
qed

lemma cells_nonEmpty: "nonEmpty d \<Longrightarrow> cells d \<noteq> []"
proof -
  assume ne: "nonEmpty d"
  obtain x0 y0 z0 where l: "lbound d = (x0, y0, z0)" by (cases "lbound d") auto
  obtain x1 y1 z1 where u: "ubound d = (x1, y1, z1)" by (cases "ubound d") auto
  from ne l u have "inDom d (x0, y0, z0)" by (simp add: nonEmpty_def inDom_def)
  then have "(x0, y0, z0) \<in> set (cells d)" by (simp add: set_cells)
  then show ?thesis by auto
qed

subsection \<open>fieldMax\<close>

lemma Max_scale:
  fixes A :: "real set"
  assumes "finite A" "A \<noteq> {}"
  shows "Max ((\<lambda>x. \<bar>a\<bar> * x) ` A) = \<bar>a\<bar> * Max A"
proof -
  have "mono (\<lambda>x. \<bar>a\<bar> * x)" by (simp add: mono_def mult_left_mono)
  from mono_Max_commute [OF this assms] show ?thesis by simp
qed

lemma localMax_scale:
  assumes "nonEmpty (fieldBox (gridData f))"
  shows "localMax (fieldScale a f) = \<bar>a\<bar> * localMax f"
proof -
  let ?cs = "cells (fieldBox (gridData f))"
  have ne: "(\<lambda>c. \<bar>F f c\<bar>) ` set ?cs \<noteq> {}" using cells_nonEmpty [OF assms] by simp
  have "(\<lambda>c. \<bar>F f c * a\<bar>) ` set ?cs = (\<lambda>x. \<bar>a\<bar> * x) ` ((\<lambda>c. \<bar>F f c\<bar>) ` set ?cs)"
    by (auto simp: abs_mult image_iff mult.commute)
  then show ?thesis
    using Max_scale [of "(\<lambda>c. \<bar>F f c\<bar>) ` set ?cs" a] ne
    by (simp add: localMax_def blitz_max_def fieldScale_def)
qed

text \<open>
  C7. Scaling every piece of a distributed field by the real number \<open>c\<close> scales the
  result of \<^verbatim>\<open>fieldMax\<close> by \<open>\<bar>c\<bar>\<close>, for arrays of positive extent.
\<close>

theorem fieldMax_scale:
  assumes "nonEmpty (fieldBox (gridData f))"
    and "\<forall>g \<in> set others. nonEmpty (fieldBox (gridData g))"
  shows "fieldMax (fieldScale c f) (map (fieldScale c) others) = \<bar>c\<bar> * fieldMax f others"
proof -
  let ?A = "set (localMax f # map localMax others)"
  have "set (localMax (fieldScale c f) # map localMax (map (fieldScale c) others))
        = (\<lambda>x. \<bar>c\<bar> * x) ` ?A"
    using assms by (auto simp: localMax_scale image_iff)
  moreover have "finite ?A" "?A \<noteq> {}" by simp_all
  ultimately show ?thesis
    using Max_scale [of ?A c] by (simp add: fieldMax_def MPI_Allreduce_MAX_def)
qed

theorem fieldMax_scale_witness:
  "nonEmpty (fieldBox (gridData (exField (\<lambda>(i, j, k). of_int (i - 2 * k)))))
   \<and> nonEmpty (fieldBox (gridData (exField (\<lambda>c. 1))))
   \<and> fieldMax (fieldScale (- 3) (exField (\<lambda>(i, j, k). of_int (i - 2 * k))))
        (map (fieldScale (- 3)) [exField (\<lambda>c. 1)])
      = 3 * fieldMax (exField (\<lambda>(i, j, k). of_int (i - 2 * k))) [exField (\<lambda>c. 1)]
   \<and> fieldMax (exField (\<lambda>(i, j, k). of_int (i - 2 * k))) [exField (\<lambda>c. 1)] = 4"
proof -
  have ne: "nonEmpty (fieldBox (gridData (exField a)))" for a
    by (simp add: nonEmpty_def fieldBox_def exField_def exGrid_def)
  have v: "fieldMax (exField (\<lambda>(i, j, k). of_int (i - 2 * k))) [exField (\<lambda>c. 1)] = 4"
    by (simp add: fieldMax_def MPI_Allreduce_MAX_def localMax_def blitz_max_def cells_def
        fieldBox_def exField_def exGrid_def upto.simps)
  show ?thesis
    using fieldMax_scale [of "exField (\<lambda>(i, j, k). of_int (i - 2 * k))" "[exField (\<lambda>c. 1)]" "- 3"]
      ne v by simp
qed

subsection \<open>sfield: boundary conditions\<close>

lemma fieldName_imposeBC [simp]: "fieldName (fst (imposeBC w s)) = fieldName (fst s)"
  by (simp add: imposeBC_def split: prod.splits)

lemma gridData_imposeBC [simp]: "gridData (fst (imposeBC w s)) = gridData (fst s)"
  by (simp add: imposeBC_def split: prod.splits)

lemma snd_imposeBC [simp]: "snd (imposeBC w s) = snd s @ [ImposeBC (fieldName (fst s)) w]"
  by (simp add: imposeBC_def split: prod.splits)

lemma fieldName_field_syncData [simp]: "fieldName (fst (field_syncData s)) = fieldName (fst s)"
  by (simp add: field_syncData_def split: prod.splits)

lemma snd_field_syncData [simp]: "snd (field_syncData s) = snd s @ [SyncData (fieldName (fst s))]"
  by (simp add: field_syncData_def split: prod.splits)

lemma snd_imposeBCs:
  "snd (imposeBCs PLANAR (sf, tr)) =
     tr @ [SyncData (fieldName sf)]
        @ (if xPer (inputParams (gridData sf)) then []
           else [ImposeBC (fieldName sf) Lft, ImposeBC (fieldName sf) Rgt])
        @ (if PLANAR then []
           else if yPer (inputParams (gridData sf)) then []
           else [ImposeBC (fieldName sf) Frn, ImposeBC (fieldName sf) Bak])
        @ [ImposeBC (fieldName sf) Top, ImposeBC (fieldName sf) Bot]"
  by (simp add: imposeBCs_def Let_def)

lemma fst_imposeBCs:
  "fst (imposeBCs PLANAR (sf, tr)) =
     sf\<lparr>F :=
          (let a0 = mpiHandle_syncData sf tr (F sf);
               a1 = (if xPer (inputParams (gridData sf)) then a0 else tRgt sf (tLft sf a0));
               a2 = (if PLANAR then a1
                     else if yPer (inputParams (gridData sf)) then a1
                     else tBak sf (tFrn sf a1))
           in tBot sf (tTop sf a2))\<rparr>"
  by (simp add: imposeBCs_def Let_def imposeBC_def field_syncData_def wallBC_def)

text \<open>
  C5. \<^verbatim>\<open>sfield::imposeBCs\<close> exchanges the halos first (\<^verbatim>\<open>syncData\<close>), then applies
  the left and the right boundary object when the x axis is not periodic, then the front
  and the back one when the build is not planar and the y axis is not periodic, and last
  the top and the bottom one, whatever \<^verbatim>\<open>zPer\<close> is. The array the field holds
  afterwards is the one these calls produce from its array, each applied to the result
  of the one before; the calls logged are exactly these, in this order; nothing else of
  the field changes.
\<close>

theorem imposeBCs_order:
  "imposeBCs PLANAR (sf, tr) =
     (sf\<lparr>F :=
          (let a0 = mpiHandle_syncData sf tr (F sf);
               a1 = (if xPer (inputParams (gridData sf)) then a0 else tRgt sf (tLft sf a0));
               a2 = (if PLANAR then a1
                     else if yPer (inputParams (gridData sf)) then a1
                     else tBak sf (tFrn sf a1))
           in tBot sf (tTop sf a2))\<rparr>,
      tr @ [SyncData (fieldName sf)]
         @ (if xPer (inputParams (gridData sf)) then []
            else [ImposeBC (fieldName sf) Lft, ImposeBC (fieldName sf) Rgt])
         @ (if PLANAR then []
            else if yPer (inputParams (gridData sf)) then []
            else [ImposeBC (fieldName sf) Frn, ImposeBC (fieldName sf) Bak])
         @ [ImposeBC (fieldName sf) Top, ImposeBC (fieldName sf) Bot])"
  by (simp only: prod_eq_iff fst_conv snd_conv fst_imposeBCs snd_imposeBCs simp_thms)

subsection \<open>sfield: what the operators write\<close>

lemma sliceAdd_outside: "\<not> inDom d c \<Longrightarrow> sliceAdd d H D c = H c"
  by (simp add: sliceAdd_def)

lemma sliceSubMul_outside: "\<not> inDom d c \<Longrightarrow> sliceSubMul d H A D c = H c"
  by (simp add: sliceSubMul_def)

lemma sliceAssign_outside: "\<not> inDom d c \<Longrightarrow> sliceAssign d H D c = H c"
  by (simp add: sliceAssign_def)

text \<open>
  C10. \<^verbatim>\<open>computeDiff\<close>, \<^verbatim>\<open>computeNLin\<close> and \<^verbatim>\<open>gradient\<close> write only the
  core cells of their output argument: a cell outside the core keeps the value it had
  before the call. In the core, \<^verbatim>\<open>computeDiff\<close> adds the second derivatives to the
  old value, \<^verbatim>\<open>computeNLin\<close> subtracts the products of velocity and first derivative
  from it, and \<^verbatim>\<open>gradient\<close> overwrites it with the first derivative (in a planar
  build the y terms are left out and the y component of the gradient is not touched).
\<close>

theorem sfield_outputs_core_only:
  "snd (computeDiff PLANAR sf H) c =
     (if inDom (core sf) c
      then H c + calcDerivative2xx (derS sf) (F sf) (\<lambda>c. 0) c
               + (if PLANAR then 0 else calcDerivative2yy (derS sf) (F sf) (\<lambda>c. 0) c)
               + calcDerivative2zz (derS sf) (F sf) (\<lambda>c. 0) c
      else H c)
   \<and> snd (computeNLin PLANAR sf vel H) c =
     (if inDom (core sf) c
      then H c - Vx_F vel c * calcDerivative1_x (derS sf) (F sf) (\<lambda>c. 0) c
               - (if PLANAR then 0 else Vy_F vel c * calcDerivative1_y (derS sf) (F sf) (\<lambda>c. 0) c)
               - Vz_F vel c * calcDerivative1_z (derS sf) (F sf) (\<lambda>c. 0) c
      else H c)
   \<and> Vx (snd (gradient PLANAR sf gradF)) c =
     (if inDom (core sf) c then calcDerivative1_x (derS sf) (F sf) (\<lambda>c. 0) c else Vx gradF c)
   \<and> Vy (snd (gradient PLANAR sf gradF)) c =
     (if PLANAR then Vy gradF c
      else if inDom (core sf) c then calcDerivative1_y (derS sf) (F sf) (\<lambda>c. 0) c
      else Vy gradF c)
   \<and> Vz (snd (gradient PLANAR sf gradF)) c =
     (if inDom (core sf) c then calcDerivative1_z (derS sf) (F sf) (\<lambda>c. 0) c else Vz gradF c)"
  by (simp add: computeDiff_def computeNLin_def gradient_def Let_def
      sliceAdd_def sliceSubMul_def sliceAssign_def)

subsection \<open>The Jacobi loop\<close>

lemma jacobiCandidate_spec: "jacobiCandidate ts alpha f rhs c = spec_candidate ts alpha f rhs c"
proof (cases c)
  case (fields i j k)
  have n: "(ihx2 ts * xix2 (mesh ts) i * (f (i + 1, j, k) + f (i - 1, j, k)) +
         i2hx ts * xixx (mesh ts) i * (f (i + 1, j, k) - f (i - 1, j, k)) +
         ihy2 ts * ety2 (mesh ts) j * (f (i, j + 1, k) + f (i, j - 1, k)) +
         i2hy ts * etyy (mesh ts) j * (f (i, j + 1, k) - f (i, j - 1, k)) +
         ihz2 ts * ztz2 (mesh ts) k * (f (i, j, k + 1) + f (i, j, k - 1)) +
         i2hz ts * ztzz (mesh ts) k * (f (i, j, k + 1) - f (i, j, k - 1)))
       = spec_neighbourSum ts f (i, j, k)"
    by (simp add: spec_neighbourSum_def spec_laplacian_def spec_diag_def algebra_simps)
  have d: "1 + dt ts * alpha *
          (ihx2 ts * xix2 (mesh ts) i + ihy2 ts * ety2 (mesh ts) j + ihz2 ts * ztz2 (mesh ts) k)
        = 1 + alpha * dt ts * spec_diag ts (i, j, k)"
    by (simp add: spec_diag_def algebra_simps)
  show ?thesis
    unfolding jacobiCandidate_def spec_candidate_def fields prod.case n d
    by (simp add: mult.assoc mult.commute)
qed

lemma jacobiResidual_spec:
  "jacobiResidual ts alpha f c - rhs c = spec_residual ts alpha f rhs c"
  by (cases c) (simp add: jacobiResidual_def spec_residual_def spec_laplacian_def algebra_simps)

lemma spec_neighbourSum_explicit:
  "spec_neighbourSum ts f (i, j, k) =
        xix2 (mesh ts) i * (f (i + 1, j, k) + f (i - 1, j, k)) * ihx2 ts
      + xixx (mesh ts) i * (f (i + 1, j, k) - f (i - 1, j, k)) * i2hx ts
      + ety2 (mesh ts) j * (f (i, j + 1, k) + f (i, j - 1, k)) * ihy2 ts
      + etyy (mesh ts) j * (f (i, j + 1, k) - f (i, j - 1, k)) * i2hy ts
      + ztz2 (mesh ts) k * (f (i, j, k + 1) + f (i, j, k - 1)) * ihz2 ts
      + ztzz (mesh ts) k * (f (i, j, k + 1) - f (i, j, k - 1)) * i2hz ts"
  by (simp add: spec_neighbourSum_def spec_laplacian_def spec_diag_def algebra_simps)

lemma sweeps_0 [simp]: "sweeps ts alpha bc others rhs 0 st = st"
  by (simp add: sweeps_def)

lemma sweeps_Suc:
  "sweeps ts alpha bc others rhs (Suc n) st =
   sweeps ts alpha bc others rhs n (fst (jacobiSweep ts alpha bc others rhs st))"
  unfolding sweeps_def by (simp only: funpow_Suc_right o_apply)

lemma residualAt_Suc:
  "residualAt ts alpha bc others rhs (Suc n) st =
   residualAt ts alpha bc others rhs n (fst (jacobiSweep ts alpha bc others rhs st))"
  by (simp add: residualAt_def sweeps_Suc)

lemma jacobi_Returned:
  "jacobi ts alpha name bc others rhs st it = Returned s \<Longrightarrow>
   \<exists>n \<le> nat (maxIterations ts - it).
      s = sweeps ts alpha bc others rhs (Suc n) st
      \<and> residualAt ts alpha bc others rhs n st < cnTolerance (inputParams (mesh ts))
      \<and> (\<forall>m<n. \<not> residualAt ts alpha bc others rhs m st < cnTolerance (inputParams (mesh ts)))"
proof (induction ts alpha name bc others rhs st it arbitrary: s rule: jacobi.induct)
  case (1 ts alpha name bc others rhs st it)
  let ?tol = "cnTolerance (inputParams (mesh ts))"
  let ?s1 = "fst (jacobiSweep ts alpha bc others rhs st)"
  show ?case
  proof (cases "snd (jacobiSweep ts alpha bc others rhs st) < ?tol")
    case True
    with "1.prems" have "s = ?s1" by (simp add: jacobi.simps [of ts alpha name bc others rhs st it])
    with True show ?thesis
      by (intro exI [of _ 0]) (simp add: sweeps_Suc residualAt_def)
  next
    case False
    show ?thesis
    proof (cases "it + 1 > maxIterations ts")
      case True
      with False "1.prems" show ?thesis
        by (simp add: jacobi.simps [of ts alpha name bc others rhs st it])
    next
      case nexit: False
      with False "1.prems" have r: "jacobi ts alpha name bc others rhs ?s1 (it + 1) = Returned s"
        by (simp add: jacobi.simps [of ts alpha name bc others rhs st it])
      from "1.IH" [OF False nexit r] obtain n where
        n: "n \<le> nat (maxIterations ts - (it + 1))"
           "s = sweeps ts alpha bc others rhs (Suc n) ?s1"
           "residualAt ts alpha bc others rhs n ?s1 < ?tol"
           "\<forall>m<n. \<not> residualAt ts alpha bc others rhs m ?s1 < ?tol"
        by blast
      have r0: "\<not> residualAt ts alpha bc others rhs 0 st < ?tol"
        using False by (simp add: residualAt_def)
      have "\<forall>m<Suc n. \<not> residualAt ts alpha bc others rhs m st < ?tol"
      proof (intro allI impI)
        fix m assume "m < Suc n"
        then show "\<not> residualAt ts alpha bc others rhs m st < ?tol"
          using r0 n(4) by (cases m) (simp_all add: residualAt_Suc)
      qed
      moreover have "Suc n \<le> nat (maxIterations ts - it)" using n(1) nexit by simp
      ultimately show ?thesis
        using n(2,3)
        by (intro exI [of _ "Suc n"]) (simp add: sweeps_Suc [of _ _ _ _ _ "Suc n"] residualAt_Suc)
    qed
  qed
qed

lemma jacobi_Exited:
  "jacobi ts alpha name bc others rhs st it = Exited c s \<Longrightarrow>
   c = 0
   \<and> s = abortReport ts name (sweeps ts alpha bc others rhs (Suc (nat (maxIterations ts - it))) st)
   \<and> (\<forall>m \<le> nat (maxIterations ts - it).
         \<not> residualAt ts alpha bc others rhs m st < cnTolerance (inputParams (mesh ts)))"
proof (induction ts alpha name bc others rhs st it arbitrary: s rule: jacobi.induct)
  case (1 ts alpha name bc others rhs st it)
  let ?tol = "cnTolerance (inputParams (mesh ts))"
  let ?s1 = "fst (jacobiSweep ts alpha bc others rhs st)"
  have nconv: "\<not> snd (jacobiSweep ts alpha bc others rhs st) < ?tol"
    using "1.prems" by (auto simp: jacobi.simps [of ts alpha name bc others rhs st it] split: if_splits)
  have r0: "\<not> residualAt ts alpha bc others rhs 0 st < ?tol"
    using nconv by (simp add: residualAt_def)
  show ?case
  proof (cases "it + 1 > maxIterations ts")
    case True
    then have k: "nat (maxIterations ts - it) = 0" by simp
    from True nconv "1.prems" have "c = 0" "s = abortReport ts name ?s1"
      by (simp_all add: jacobi.simps [of ts alpha name bc others rhs st it])
    then show ?thesis using r0 by (simp add: k sweeps_Suc)
  next
    case nexit: False
    with nconv "1.prems" have r: "jacobi ts alpha name bc others rhs ?s1 (it + 1) = Exited c s"
      by (simp add: jacobi.simps [of ts alpha name bc others rhs st it])
    have k: "nat (maxIterations ts - it) = Suc (nat (maxIterations ts - (it + 1)))"
      using nexit by simp
    from "1.IH" [OF nconv nexit r] have ih:
      "c = 0"
      "s = abortReport ts name (sweeps ts alpha bc others rhs (Suc (nat (maxIterations ts - (it + 1)))) ?s1)"
      "\<forall>m \<le> nat (maxIterations ts - (it + 1)). \<not> residualAt ts alpha bc others rhs m ?s1 < ?tol"
      by blast+
    have "\<forall>m \<le> nat (maxIterations ts - it). \<not> residualAt ts alpha bc others rhs m st < ?tol"
    proof (intro allI impI)
      fix m assume "m \<le> nat (maxIterations ts - it)"
      then show "\<not> residualAt ts alpha bc others rhs m st < ?tol"
        using r0 ih(3) k by (cases m) (simp_all add: residualAt_Suc)
    qed
    then show ?thesis using ih(1,2) by (simp add: k sweeps_Suc [of _ _ _ _ _ "Suc n" for n])
  qed
qed

lemma stateOf_mapOutcome [simp]: "stateOf (mapOutcome f x) = f (stateOf x)"
  by (cases x) simp_all

lemma isReturned_mapOutcome [simp]: "isReturned (mapOutcome f x) = isReturned x"
  by (cases x) simp_all

lemma cout_sweeps [simp]: "cout (sweeps ts alpha bc others rhs n st) = cout st"
proof (induction n arbitrary: st)
  case 0
  then show ?case by simp
next
  case (Suc n)
  then show ?case by (simp add: sweeps_Suc jacobiSweep_def Let_def)
qed

subsection \<open>The small sub-domain, evaluated\<close>

lemma exTs_eq:
  "exTs = \<lparr>mesh = exGrid, solTime = 1, dt = 1, nu = 1, kappa = 1, maxIterations = 0,
        xSt = 1, xEn = 1, ySt = 1, yEn = 1, zSt = 1, zEn = 1,
        i2hx = 1 / 2, i2hy = 1 / 2, i2hz = 1 / 2, ihx2 = 1, ihy2 = 1, ihz2 = 1\<rparr>"
  by (simp add: exTs_def exTs0_def eulerCN_d3_init_def setCoefficients_def exGrid_def int_of_real_def)

lemma ex_cells: "cells \<lparr>lbound = (1, 1, 1), ubound = (1, 1, 1)\<rparr> = [(1, 1, 1)]"
  by (simp add: cells_def)

lemma ex_inDom: "inDom \<lparr>lbound = (1, 1, 1), ubound = (1, 1, 1)\<rparr> c = (c = (1, 1, 1))"
  by (cases c) (auto simp: inDom_def)

lemmas ex_simps = exTs_eq exGrid_def exParams_def exEnv_def exState_def ex_cells ex_inDom
  loopBox_def sliceAssign_def blitz_max_def MPI_Allreduce_MAX_def

lemma ex_sweep:
  "jacobiSweep exTs 1 (bcVx exEnv) (otherRanks exEnv) (\<lambda>c. 2) exState =
     (\<lparr>phi = (\<lambda>c. if c = (1, 1, 1) then 5 / 4 else 0),
       temp = (\<lambda>c. if c = (1, 1, 1) then 3 else 0),
       trace = [ImposeVxBC, Allreduce], cout = []\<rparr>, 3)"
  by (simp add: jacobiSweep_def firstLoop_def Let_def bcVx_def ex_simps
       jacobiCandidate_def jacobiResidual_def fun_eq_iff)

lemma ex_jacobi:
  "jacobi exTs 1 ''Vx'' (bcVx exEnv) (otherRanks exEnv) (\<lambda>c. 2) exState 0 =
     Exited 0
      \<lparr>phi = (\<lambda>c. if c = (1, 1, 1) then 5 / 4 else 0),
       temp = (\<lambda>c. if c = (1, 1, 1) then 3 else 0),
       trace = [ImposeVxBC, Allreduce, Finalize],
       cout = [''ERROR: Jacobi iterations for solution of Vx not converging. Aborting'']\<rparr>"
proof -
  have m: "maxIterations exTs = 0" "cnTolerance (inputParams (mesh exTs)) = 1 / 1000"
    "rank (mesh exTs) = 0"
    by (simp_all add: exTs_eq exGrid_def exParams_def)
  show ?thesis
    by (subst jacobi.simps) (simp add: ex_sweep m abortReport_def)
qed

subsection \<open>One sweep\<close>

lemma firstLoop_spec:
  assumes "loopBox ts = coreDomain (mesh ts)"
  shows "firstLoop ts alpha rhs st c =
     (if inDom (coreDomain (mesh ts)) c then spec_candidate ts alpha (phi st) rhs c else temp st c)"
  using assms by (simp add: firstLoop_def sliceAssign_def jacobiCandidate_spec)

lemma sweep_phi:
  "phi (fst (jacobiSweep ts alpha bc others rhs st)) = fst (bc (firstLoop ts alpha rhs st, trace st))"
  by (simp add: jacobiSweep_def Let_def)

lemma sweep_gloMax:
  assumes "loopBox ts = coreDomain (mesh ts)"
  shows "snd (jacobiSweep ts alpha bc others rhs st) =
     MPI_Allreduce_MAX
       (blitz_max (map (\<lambda>c. \<bar>spec_residual ts alpha (phi (fst (jacobiSweep ts alpha bc others rhs st))) rhs c\<bar>)
                     (cells (coreDomain (mesh ts))))
        # others (snd (bc (firstLoop ts alpha rhs st, trace st))))"
proof -
  let ?core = "coreDomain (mesh ts)"
  let ?f = "fst (bc (firstLoop ts alpha rhs st, trace st))"
  let ?t2 = "sliceAssign (loopBox ts) (firstLoop ts alpha rhs st) (jacobiResidual ts alpha ?f)"
  have meq: "map (sliceAssign ?core ?t2 (\<lambda>c. \<bar>?t2 c - rhs c\<bar>)) (cells ?core)
        = map (\<lambda>c. \<bar>spec_residual ts alpha ?f rhs c\<bar>) (cells ?core)"
    using assms by (intro map_cong) (auto simp: set_cells sliceAssign_def jacobiResidual_spec)
  show ?thesis by (simp add: jacobiSweep_def Let_def meq)
qed

lemma sweep_trace:
  "trace (fst (jacobiSweep ts alpha bc others rhs st)) =
     snd (bc (firstLoop ts alpha rhs st, trace st)) @ [Allreduce]"
  by (simp add: jacobiSweep_def Let_def)

lemma bcT_eq:
  "bcT sf (a, tr) =
       (let a0 = mpiHandle_syncData sf tr a;
             a1 = (if xPer (inputParams (gridData sf)) then a0 else tRgt sf (tLft sf a0));
             a2 = (if yPer (inputParams (gridData sf)) then a1 else tBak sf (tFrn sf a1))
         in tBot sf (tTop sf a2),
        tr @ [SyncData (fieldName sf)]
           @ (if xPer (inputParams (gridData sf)) then []
              else [ImposeBC (fieldName sf) Lft, ImposeBC (fieldName sf) Rgt])
           @ (if yPer (inputParams (gridData sf)) then []
              else [ImposeBC (fieldName sf) Frn, ImposeBC (fieldName sf) Bak])
           @ [ImposeBC (fieldName sf) Top, ImposeBC (fieldName sf) Bot])"
  by (simp add: bcT_def case_prod_beta fst_imposeBCs snd_imposeBCs)

lemma solveVx_eq:
  "solveVx ts e w =
       mapOutcome
         (\<lambda>s. w\<lparr>V := (V w)\<lparr>Vx_F := phi s\<rparr>, tempVx := temp s, calls := trace s, stdout := cout s\<rparr>)
         (jacobi ts (nu ts) ''Vx'' (bcVx e) (otherRanks e) (Vx (nseRHS w))
            \<lparr>phi = Vx_F (V w), temp = tempVx w, trace = calls w, cout = stdout w\<rparr> 0)"
  by (simp add: solveVx_def putVx_def [abs_def])

lemma solveVy_eq:
  "solveVy ts e w =
       mapOutcome
         (\<lambda>s. w\<lparr>V := (V w)\<lparr>Vy_F := phi s\<rparr>, tempVy := temp s, calls := trace s, stdout := cout s\<rparr>)
         (jacobi ts (nu ts) ''Vy'' (bcVy e) (otherRanks e) (Vy (nseRHS w))
            \<lparr>phi = Vy_F (V w), temp = tempVy w, trace = calls w, cout = stdout w\<rparr> 0)"
  by (simp add: solveVy_def putVy_def [abs_def])

lemma solveVz_eq:
  "solveVz ts e w =
       mapOutcome
         (\<lambda>s. w\<lparr>V := (V w)\<lparr>Vz_F := phi s\<rparr>, tempVz := temp s, calls := trace s, stdout := cout s\<rparr>)
         (jacobi ts (nu ts) ''Vz'' (bcVz e) (otherRanks e) (Vz (nseRHS w))
            \<lparr>phi = Vz_F (V w), temp = tempVz w, trace = calls w, cout = stdout w\<rparr> 0)"
  by (simp add: solveVz_def putVz_def [abs_def])

lemma solveT_eq:
  "solveT ts e w =
       mapOutcome
         (\<lambda>s. w\<lparr>T := (T w)\<lparr>F := phi s\<rparr>, tempT := temp s, calls := trace s, stdout := cout s\<rparr>)
         (jacobi ts (kappa ts) ''T'' (bcT (T w)) (otherRanks e) (tmpRHS w)
            \<lparr>phi = F (T w), temp = tempT w, trace = calls w, cout = stdout w\<rparr> 0)"
  by (simp add: solveT_def putT_def [abs_def])

text \<open>
  C1. One pass of the loop body of \<^verbatim>\<open>solveVx\<close>, \<^verbatim>\<open>solveVy\<close>, \<^verbatim>\<open>solveVz\<close> (with
  \<^verbatim>\<open>nu\<close>) and \<^verbatim>\<open>solveT\<close> (with \<^verbatim>\<open>kappa\<close>), when the loops run over the core.
  For every core cell the first loop nest stores the candidate
  \<open>(S \<cdot> (\<alpha> dt / 2) + rhs) / (1 + \<alpha> dt (xix2 ihx2 + ety2 ihy2 + ztz2 ihz2))\<close>, where \<open>S\<close> is
  the Laplacian without its centre terms, and leaves the other cells of the scratch
  array alone. The scratch array is copied into the field and the boundary conditions
  of that component are imposed on it: \<^verbatim>\<open>V.imposeVxBC()\<close>, \<^verbatim>\<open>V.imposeVyBC()\<close> and
  \<^verbatim>\<open>V.imposeVzBC()\<close> for the velocity, and for \<^verbatim>\<open>T\<close> the halo exchange followed by
  the wall objects of \<^verbatim>\<open>T\<close> (left and right unless x is periodic, front and back
  unless y is periodic, top and bottom always). The global maximum is the reduction over
  all ranks of the largest \<open>\<bar>\<phi> - (\<alpha> dt / 2) L\<phi> - rhs\<bar>\<close> over the core of the field so
  obtained, and the loop compares it with \<^verbatim>\<open>cnTolerance\<close>. Each solver runs this loop
  on its own component, right-hand side and scratch array, and what the loop leaves is
  that component of the field: nothing else of \<^verbatim>\<open>V\<close> or \<^verbatim>\<open>T\<close> is written.
\<close>

theorem jacobiSweep_spec:
  assumes "loopBox ts = coreDomain (mesh ts)"
  shows
    "(\<forall>c. firstLoop ts alpha rhs st c =
         (if inDom (coreDomain (mesh ts)) c
          then (spec_neighbourSum ts (phi st) c * (alpha * dt ts / 2) + rhs c)
               / (1 + alpha * dt ts * spec_diag ts c)
          else temp st c))
   \<and> (\<forall>f i j k. spec_neighbourSum ts f (i, j, k) =
          xix2 (mesh ts) i * (f (i + 1, j, k) + f (i - 1, j, k)) * ihx2 ts
        + xixx (mesh ts) i * (f (i + 1, j, k) - f (i - 1, j, k)) * i2hx ts
        + ety2 (mesh ts) j * (f (i, j + 1, k) + f (i, j - 1, k)) * ihy2 ts
        + etyy (mesh ts) j * (f (i, j + 1, k) - f (i, j - 1, k)) * i2hy ts
        + ztz2 (mesh ts) k * (f (i, j, k + 1) + f (i, j, k - 1)) * ihz2 ts
        + ztzz (mesh ts) k * (f (i, j, k + 1) - f (i, j, k - 1)) * i2hz ts)
   \<and> phi (fst (jacobiSweep ts alpha bc others rhs st)) = fst (bc (firstLoop ts alpha rhs st, trace st))
   \<and> trace (fst (jacobiSweep ts alpha bc others rhs st)) =
       snd (bc (firstLoop ts alpha rhs st, trace st)) @ [Allreduce]
   \<and> snd (jacobiSweep ts alpha bc others rhs st) =
       MPI_Allreduce_MAX
         (blitz_max (map (\<lambda>c. \<bar>phi (fst (jacobiSweep ts alpha bc others rhs st)) c
                               - (alpha * dt ts / 2)
                                 * spec_laplacian ts (phi (fst (jacobiSweep ts alpha bc others rhs st))) c
                               - rhs c\<bar>)
                       (cells (coreDomain (mesh ts))))
          # others (snd (bc (firstLoop ts alpha rhs st, trace st))))
   \<and> jacobi ts alpha name bc others rhs st iterCount =
       (if snd (jacobiSweep ts alpha bc others rhs st) < cnTolerance (inputParams (mesh ts))
        then Returned (fst (jacobiSweep ts alpha bc others rhs st))
        else if iterCount + 1 > maxIterations ts
        then Exited 0 (abortReport ts name (fst (jacobiSweep ts alpha bc others rhs st)))
        else jacobi ts alpha name bc others rhs (fst (jacobiSweep ts alpha bc others rhs st)) (iterCount + 1))
   \<and> bcVx e (a, tr) = (V_imposeVxBC e tr a, tr @ [ImposeVxBC])
   \<and> bcVy e (a, tr) = (V_imposeVyBC e tr a, tr @ [ImposeVyBC])
   \<and> bcVz e (a, tr) = (V_imposeVzBC e tr a, tr @ [ImposeVzBC])
   \<and> bcT sf (a, tr) =
       (let a0 = mpiHandle_syncData sf tr a;
             a1 = (if xPer (inputParams (gridData sf)) then a0 else tRgt sf (tLft sf a0));
             a2 = (if yPer (inputParams (gridData sf)) then a1 else tBak sf (tFrn sf a1))
         in tBot sf (tTop sf a2),
        tr @ [SyncData (fieldName sf)]
           @ (if xPer (inputParams (gridData sf)) then []
              else [ImposeBC (fieldName sf) Lft, ImposeBC (fieldName sf) Rgt])
           @ (if yPer (inputParams (gridData sf)) then []
              else [ImposeBC (fieldName sf) Frn, ImposeBC (fieldName sf) Bak])
           @ [ImposeBC (fieldName sf) Top, ImposeBC (fieldName sf) Bot])
   \<and> solveVx ts e w =
       mapOutcome
         (\<lambda>s. w\<lparr>V := (V w)\<lparr>Vx_F := phi s\<rparr>, tempVx := temp s, calls := trace s, stdout := cout s\<rparr>)
         (jacobi ts (nu ts) ''Vx'' (bcVx e) (otherRanks e) (Vx (nseRHS w))
            \<lparr>phi = Vx_F (V w), temp = tempVx w, trace = calls w, cout = stdout w\<rparr> 0)
   \<and> solveVy ts e w =
       mapOutcome
         (\<lambda>s. w\<lparr>V := (V w)\<lparr>Vy_F := phi s\<rparr>, tempVy := temp s, calls := trace s, stdout := cout s\<rparr>)
         (jacobi ts (nu ts) ''Vy'' (bcVy e) (otherRanks e) (Vy (nseRHS w))
            \<lparr>phi = Vy_F (V w), temp = tempVy w, trace = calls w, cout = stdout w\<rparr> 0)
   \<and> solveVz ts e w =
       mapOutcome
         (\<lambda>s. w\<lparr>V := (V w)\<lparr>Vz_F := phi s\<rparr>, tempVz := temp s, calls := trace s, stdout := cout s\<rparr>)
         (jacobi ts (nu ts) ''Vz'' (bcVz e) (otherRanks e) (Vz (nseRHS w))
            \<lparr>phi = Vz_F (V w), temp = tempVz w, trace = calls w, cout = stdout w\<rparr> 0)
   \<and> solveT ts e w =
       mapOutcome
         (\<lambda>s. w\<lparr>T := (T w)\<lparr>F := phi s\<rparr>, tempT := temp s, calls := trace s, stdout := cout s\<rparr>)
         (jacobi ts (kappa ts) ''T'' (bcT (T w)) (otherRanks e) (tmpRHS w)
            \<lparr>phi = F (T w), temp = tempT w, trace = calls w, cout = stdout w\<rparr> 0)
   \<and> phi (fst (jacobiSweep ts (nu ts) (bcVx e) others rhs st)) =
       V_imposeVxBC e (trace st) (firstLoop ts (nu ts) rhs st)
   \<and> phi (fst (jacobiSweep ts (nu ts) (bcVy e) others rhs st)) =
       V_imposeVyBC e (trace st) (firstLoop ts (nu ts) rhs st)
   \<and> phi (fst (jacobiSweep ts (nu ts) (bcVz e) others rhs st)) =
       V_imposeVzBC e (trace st) (firstLoop ts (nu ts) rhs st)
   \<and> phi (fst (jacobiSweep ts (kappa ts) (bcT sf) others rhs st)) =
       (let a0 = mpiHandle_syncData sf (trace st) (firstLoop ts (kappa ts) rhs st);
            a1 = (if xPer (inputParams (gridData sf)) then a0 else tRgt sf (tLft sf a0));
            a2 = (if yPer (inputParams (gridData sf)) then a1 else tBak sf (tFrn sf a1))
        in tBot sf (tTop sf a2))"
proof -
  have a: "(\<forall>c. firstLoop ts alpha rhs st c =
         (if inDom (coreDomain (mesh ts)) c
          then (spec_neighbourSum ts (phi st) c * (alpha * dt ts / 2) + rhs c)
               / (1 + alpha * dt ts * spec_diag ts c)
          else temp st c))"
    using firstLoop_spec [OF assms] by (simp add: spec_candidate_def)
  have ns: "(\<forall>f i j k. spec_neighbourSum ts f (i, j, k) =
          xix2 (mesh ts) i * (f (i + 1, j, k) + f (i - 1, j, k)) * ihx2 ts
        + xixx (mesh ts) i * (f (i + 1, j, k) - f (i - 1, j, k)) * i2hx ts
        + ety2 (mesh ts) j * (f (i, j + 1, k) + f (i, j - 1, k)) * ihy2 ts
        + etyy (mesh ts) j * (f (i, j + 1, k) - f (i, j - 1, k)) * i2hy ts
        + ztz2 (mesh ts) k * (f (i, j, k + 1) + f (i, j, k - 1)) * ihz2 ts
        + ztzz (mesh ts) k * (f (i, j, k + 1) - f (i, j, k - 1)) * i2hz ts)"
    by (simp only: spec_neighbourSum_explicit, simp)
  have b: "snd (jacobiSweep ts alpha bc others rhs st) =
       MPI_Allreduce_MAX
         (blitz_max (map (\<lambda>c. \<bar>phi (fst (jacobiSweep ts alpha bc others rhs st)) c
                               - (alpha * dt ts / 2)
                                 * spec_laplacian ts (phi (fst (jacobiSweep ts alpha bc others rhs st))) c
                               - rhs c\<bar>)
                       (cells (coreDomain (mesh ts))))
          # others (snd (bc (firstLoop ts alpha rhs st, trace st))))"
    using sweep_gloMax [OF assms, of alpha bc others rhs st] by (simp add: spec_residual_def)
  have c: "jacobi ts alpha name bc others rhs st iterCount =
       (if snd (jacobiSweep ts alpha bc others rhs st) < cnTolerance (inputParams (mesh ts))
        then Returned (fst (jacobiSweep ts alpha bc others rhs st))
        else if iterCount + 1 > maxIterations ts
        then Exited 0 (abortReport ts name (fst (jacobiSweep ts alpha bc others rhs st)))
        else jacobi ts alpha name bc others rhs (fst (jacobiSweep ts alpha bc others rhs st)) (iterCount + 1))"
    by (rule jacobi.simps)
  have bcx: "bcVx e (a, tr) = (V_imposeVxBC e tr a, tr @ [ImposeVxBC])" by (simp add: bcVx_def)
  have bcy: "bcVy e (a, tr) = (V_imposeVyBC e tr a, tr @ [ImposeVyBC])" by (simp add: bcVy_def)
  have bcz: "bcVz e (a, tr) = (V_imposeVzBC e tr a, tr @ [ImposeVzBC])" by (simp add: bcVz_def)
  have px: "phi (fst (jacobiSweep ts (nu ts) (bcVx e) others rhs st)) =
       V_imposeVxBC e (trace st) (firstLoop ts (nu ts) rhs st)"
    by (simp add: sweep_phi bcVx_def)
  have py: "phi (fst (jacobiSweep ts (nu ts) (bcVy e) others rhs st)) =
       V_imposeVyBC e (trace st) (firstLoop ts (nu ts) rhs st)"
    by (simp add: sweep_phi bcVy_def)
  have pz: "phi (fst (jacobiSweep ts (nu ts) (bcVz e) others rhs st)) =
       V_imposeVzBC e (trace st) (firstLoop ts (nu ts) rhs st)"
    by (simp add: sweep_phi bcVz_def)
  have pT: "phi (fst (jacobiSweep ts (kappa ts) (bcT sf) others rhs st)) =
       (let a0 = mpiHandle_syncData sf (trace st) (firstLoop ts (kappa ts) rhs st);
            a1 = (if xPer (inputParams (gridData sf)) then a0 else tRgt sf (tLft sf a0));
            a2 = (if yPer (inputParams (gridData sf)) then a1 else tBak sf (tFrn sf a1))
        in tBot sf (tTop sf a2))"
    by (simp add: sweep_phi bcT_eq)
  show ?thesis
    by (intro conjI a ns sweep_phi sweep_trace b c bcx bcy bcz bcT_eq
          solveVx_eq solveVy_eq solveVz_eq solveT_eq px py pz pT)
qed

theorem jacobiSweep_spec_witness:
  "loopBox exTs = coreDomain (mesh exTs)
   \<and> inDom (coreDomain (mesh exTs)) (1, 1, 1)
   \<and> firstLoop exTs 1 (\<lambda>c. 2) exState (1, 1, 1) = (6 * (1 * 1 / 2) + 2) / (1 + 1 * 1 * 3)
   \<and> firstLoop exTs 1 (\<lambda>c. 2) exState (1, 1, 1) = 5 / 4
   \<and> snd (jacobiSweep exTs 1 (bcVx exEnv) (otherRanks exEnv) (\<lambda>c. 2) exState) = 3
   \<and> fst (bcT exWalls (\<lambda>c. 1, [])) (0, 0, 0) = 42"
proof -
  have box: "loopBox exTs = coreDomain (mesh exTs)"
    by (simp add: exTs_eq loopBox_def exGrid_def)
  have inD: "inDom (coreDomain (mesh exTs)) (1, 1, 1)"
    by (simp add: exTs_eq exGrid_def ex_inDom)
  have ns: "spec_neighbourSum exTs (phi exState) (1, 1, 1) = 6"
    by (simp add: spec_neighbourSum_explicit exTs_eq exGrid_def exState_def)
  have dg: "spec_diag exTs (1, 1, 1) = 3" "dt exTs = 1"
    by (simp_all add: spec_diag_def exTs_eq exGrid_def)
  note th = jacobiSweep_spec [OF box, where alpha = 1 and rhs = "\<lambda>c. 2" and st = exState
      and sf = exWalls and a = "\<lambda>c. 1" and tr = "[]"]
  have "firstLoop exTs 1 (\<lambda>c. 2) exState (1, 1, 1) =
        (spec_neighbourSum exTs (phi exState) (1, 1, 1) * (1 * dt exTs / 2) + 2)
        / (1 + 1 * dt exTs * spec_diag exTs (1, 1, 1))"
    using th [THEN conjunct1] inD by simp
  moreover have "fst (bcT exWalls (\<lambda>c. 1, [])) (0, 0, 0) = 42"
    using th [THEN conjunct2, THEN conjunct2, THEN conjunct2, THEN conjunct2, THEN conjunct2,
              THEN conjunct2, THEN conjunct2, THEN conjunct2, THEN conjunct2, THEN conjunct1]
    by (simp add: exWalls_def exSfield_def exGrid_def exParams_def Let_def)
  ultimately show ?thesis using box inD ns dg by (simp add: ex_sweep)
qed

subsection \<open>How the loop ends\<close>

lemma jacobi_Returned_iff:
  "(\<exists>s. jacobi ts alpha name bc others rhs st it = Returned s) =
   (\<exists>n \<le> nat (maxIterations ts - it).
       residualAt ts alpha bc others rhs n st < cnTolerance (inputParams (mesh ts)))"
proof
  assume "\<exists>s. jacobi ts alpha name bc others rhs st it = Returned s"
  then show "\<exists>n \<le> nat (maxIterations ts - it).
       residualAt ts alpha bc others rhs n st < cnTolerance (inputParams (mesh ts))"
    using jacobi_Returned by blast
next
  assume r: "\<exists>n \<le> nat (maxIterations ts - it).
       residualAt ts alpha bc others rhs n st < cnTolerance (inputParams (mesh ts))"
  show "\<exists>s. jacobi ts alpha name bc others rhs st it = Returned s"
  proof (cases "jacobi ts alpha name bc others rhs st it")
    case (Returned s)
    then show ?thesis by blast
  next
    case (Exited c s)
    from jacobi_Exited [OF this] r show ?thesis by blast
  qed
qed

lemma phi_abortReport [simp]: "phi (abortReport ts name st) = phi st"
  by (simp add: abortReport_def)

text \<open>
  C9 (as amended). Every call of a solver runs at least one full sweep before the first
  check, so the field it leaves is always the result of a sweep (the copy of the scratch
  array with the boundary conditions imposed), whatever the field was on entry. The
  counter is incremented only after a failed check: a call that returns has run \<open>n + 1\<close>
  sweeps with \<open>n \<le> maxIterations\<close>, the first \<open>n\<close> checks having failed; a call that
  aborts has run exactly \<open>maxIterations + 1\<close> sweeps (one sweep when \<open>maxIterations\<close> is
  negative), every check having failed.
\<close>

theorem jacobi_sweeps_run:
  "(\<exists>n. phi (stateOf (jacobi ts alpha name bc others rhs st 0)) =
          fst (bc (firstLoop ts alpha rhs (sweeps ts alpha bc others rhs n st),
                   trace (sweeps ts alpha bc others rhs n st))))
   \<and> (\<forall>s. jacobi ts alpha name bc others rhs st 0 = Returned s \<longrightarrow>
          (\<exists>n \<le> nat (maxIterations ts).
              s = sweeps ts alpha bc others rhs (Suc n) st
              \<and> residualAt ts alpha bc others rhs n st < cnTolerance (inputParams (mesh ts))
              \<and> (\<forall>m<n. \<not> residualAt ts alpha bc others rhs m st < cnTolerance (inputParams (mesh ts)))))
   \<and> (\<forall>c s. jacobi ts alpha name bc others rhs st 0 = Exited c s \<longrightarrow>
          s = abortReport ts name (sweeps ts alpha bc others rhs (Suc (nat (maxIterations ts))) st)
          \<and> (\<forall>m \<le> nat (maxIterations ts).
                \<not> residualAt ts alpha bc others rhs m st < cnTolerance (inputParams (mesh ts))))"
proof (intro conjI allI impI)
  have step: "phi (sweeps ts alpha bc others rhs (Suc n) st) =
        fst (bc (firstLoop ts alpha rhs (sweeps ts alpha bc others rhs n st),
                 trace (sweeps ts alpha bc others rhs n st)))" for n
    by (simp add: sweeps_def sweep_phi)
  show "\<exists>n. phi (stateOf (jacobi ts alpha name bc others rhs st 0)) =
          fst (bc (firstLoop ts alpha rhs (sweeps ts alpha bc others rhs n st),
                   trace (sweeps ts alpha bc others rhs n st)))"
  proof (cases "jacobi ts alpha name bc others rhs st 0")
    case (Returned s)
    from jacobi_Returned [OF this] obtain n where "s = sweeps ts alpha bc others rhs (Suc n) st"
      by blast
    with Returned step [of n] show ?thesis by auto
  next
    case (Exited c s)
    from jacobi_Exited [OF this]
    have "s = abortReport ts name (sweeps ts alpha bc others rhs (Suc (nat (maxIterations ts))) st)"
      by simp
    with Exited step [of "nat (maxIterations ts)"] show ?thesis by auto
  qed
next
  fix s assume "jacobi ts alpha name bc others rhs st 0 = Returned s"
  from jacobi_Returned [OF this]
  show "\<exists>n \<le> nat (maxIterations ts).
              s = sweeps ts alpha bc others rhs (Suc n) st
              \<and> residualAt ts alpha bc others rhs n st < cnTolerance (inputParams (mesh ts))
              \<and> (\<forall>m<n. \<not> residualAt ts alpha bc others rhs m st < cnTolerance (inputParams (mesh ts)))"
    by simp
next
  fix c s assume e: "jacobi ts alpha name bc others rhs st 0 = Exited c s"
  from jacobi_Exited [OF e]
  show "s = abortReport ts name (sweeps ts alpha bc others rhs (Suc (nat (maxIterations ts))) st)"
    by simp
  fix m assume "m \<le> nat (maxIterations ts)"
  with jacobi_Exited [OF e]
  show "\<not> residualAt ts alpha bc others rhs m st < cnTolerance (inputParams (mesh ts))"
    by simp
qed

lemma ex_sweeps_1:
  "sweeps exTs 1 (bcVx exEnv) (otherRanks exEnv) (\<lambda>c. 2) (Suc 0) exState =
     \<lparr>phi = (\<lambda>c. if c = (1, 1, 1) then 5 / 4 else 0),
       temp = (\<lambda>c. if c = (1, 1, 1) then 3 else 0),
       trace = [ImposeVxBC, Allreduce], cout = []\<rparr>"
  by (simp add: sweeps_def ex_sweep)

theorem jacobi_sweeps_run_witness:
  "jacobi exTs 1 ''Vx'' (bcVx exEnv) (otherRanks exEnv) (\<lambda>c. 2) exState 0 =
     Exited 0 (abortReport exTs ''Vx''
                (sweeps exTs 1 (bcVx exEnv) (otherRanks exEnv) (\<lambda>c. 2) (Suc (nat (maxIterations exTs))) exState))
   \<and> Suc (nat (maxIterations exTs)) = 1
   \<and> \<not> residualAt exTs 1 (bcVx exEnv) (otherRanks exEnv) (\<lambda>c. 2) 0 exState
         < cnTolerance (inputParams (mesh exTs))
   \<and> trace (abortReport exTs ''Vx''
                (sweeps exTs 1 (bcVx exEnv) (otherRanks exEnv) (\<lambda>c. 2) (Suc (nat (maxIterations exTs))) exState))
      = [ImposeVxBC, Allreduce, Finalize]"
proof -
  have m: "maxIterations exTs = 0" by (simp add: exTs_eq)
  from jacobi_sweeps_run [of exTs 1 "''Vx''" "bcVx exEnv" "otherRanks exEnv" "\<lambda>c. 2" exState]
  have "\<forall>c s. jacobi exTs 1 ''Vx'' (bcVx exEnv) (otherRanks exEnv) (\<lambda>c. 2) exState 0 = Exited c s \<longrightarrow>
          s = abortReport exTs ''Vx'' (sweeps exTs 1 (bcVx exEnv) (otherRanks exEnv) (\<lambda>c. 2) (Suc (nat (maxIterations exTs))) exState)
          \<and> (\<forall>m \<le> nat (maxIterations exTs).
                \<not> residualAt exTs 1 (bcVx exEnv) (otherRanks exEnv) (\<lambda>c. 2) m exState < cnTolerance (inputParams (mesh exTs)))"
    by blast
  with ex_jacobi
  have "Exited 0 \<lparr>phi = (\<lambda>c. if c = (1, 1, 1) then 5 / 4 else 0),
       temp = (\<lambda>c. if c = (1, 1, 1) then 3 else 0),
       trace = [ImposeVxBC, Allreduce, Finalize],
       cout = [''ERROR: Jacobi iterations for solution of Vx not converging. Aborting'']\<rparr>
     = Exited 0 (abortReport exTs ''Vx'' (sweeps exTs 1 (bcVx exEnv) (otherRanks exEnv) (\<lambda>c. 2) (Suc (nat (maxIterations exTs))) exState))"
    and "\<not> residualAt exTs 1 (bcVx exEnv) (otherRanks exEnv) (\<lambda>c. 2) 0 exState < cnTolerance (inputParams (mesh exTs))"
    by auto
  then show ?thesis
    using ex_jacobi m by (simp add: ex_sweeps_1 abortReport_def)
qed

text \<open>
  C9 as stated fails: with \<open>maxIterations = 0\<close> the solver aborts after one sweep (one
  reduction in the trace), not after \<open>maxIterations + 2 = 2\<close> sweeps.
\<close>

theorem abort_sweeps_counterexample:
  "jacobi exTs 1 ''Vx'' (bcVx exEnv) (otherRanks exEnv) (\<lambda>c. 2) exState 0 =
     Exited 0 (abortReport exTs ''Vx'' (fst (jacobiSweep exTs 1 (bcVx exEnv) (otherRanks exEnv) (\<lambda>c. 2) exState)))
   \<and> reductions (trace (stateOf (jacobi exTs 1 ''Vx'' (bcVx exEnv) (otherRanks exEnv) (\<lambda>c. 2) exState 0))) = 1
   \<and> maxIterations exTs = 0
   \<and> int (reductions (trace (stateOf (jacobi exTs 1 ''Vx'' (bcVx exEnv) (otherRanks exEnv) (\<lambda>c. 2) exState 0))))
       \<noteq> maxIterations exTs + 2"
proof -
  have m: "maxIterations exTs = 0" "rank (mesh exTs) = 0" by (simp_all add: exTs_eq exGrid_def)
  show ?thesis by (simp add: ex_jacobi ex_sweep abortReport_def reductions_def m)
qed

lemma jacobi_isReturned:
  "isReturned (jacobi ts alpha name bc others rhs st 0) =
     (\<exists>n \<le> nat (maxIterations ts).
         residualAt ts alpha bc others rhs n st < cnTolerance (inputParams (mesh ts)))"
proof -
  have "isReturned (jacobi ts alpha name bc others rhs st 0) =
        (\<exists>s. jacobi ts alpha name bc others rhs st 0 = Returned s)"
    by (cases "jacobi ts alpha name bc others rhs st 0") simp_all
  then show ?thesis using jacobi_Returned_iff [of ts alpha name bc others rhs st 0] by simp
qed

lemma jacobi_returned_cout:
  assumes "isReturned (jacobi ts alpha name bc others rhs st 0)"
  shows "cout (stateOf (jacobi ts alpha name bc others rhs st 0)) = cout st"
proof (cases "jacobi ts alpha name bc others rhs st 0")
  case (Returned s)
  from jacobi_Returned [OF this] obtain n where "s = sweeps ts alpha bc others rhs (Suc n) st"
    by blast
  with Returned show ?thesis by simp
next
  case (Exited c s)
  with assms show ?thesis by simp
qed

lemma jacobi_aborted:
  assumes "\<not> isReturned (jacobi ts alpha name bc others rhs st 0)"
  shows "jacobi ts alpha name bc others rhs st 0
           = Exited 0 (stateOf (jacobi ts alpha name bc others rhs st 0))"
    and "cout (stateOf (jacobi ts alpha name bc others rhs st 0)) =
           cout st @ (if rank (mesh ts) = 0
                      then [''ERROR: Jacobi iterations for solution of '' @ name @ '' not converging. Aborting'']
                      else [])"
    and "trace (stateOf (jacobi ts alpha name bc others rhs st 0)) =
           trace (sweeps ts alpha bc others rhs (Suc (nat (maxIterations ts))) st) @ [Finalize]"
proof -
  from assms obtain c s where e: "jacobi ts alpha name bc others rhs st 0 = Exited c s"
    by (cases "jacobi ts alpha name bc others rhs st 0") simp_all
  from jacobi_Exited [OF e]
  have c: "c = 0"
    and s: "s = abortReport ts name (sweeps ts alpha bc others rhs (Suc (nat (maxIterations ts))) st)"
    by simp_all
  show "jacobi ts alpha name bc others rhs st 0
           = Exited 0 (stateOf (jacobi ts alpha name bc others rhs st 0))"
    using e c by simp
  show "cout (stateOf (jacobi ts alpha name bc others rhs st 0)) =
           cout st @ (if rank (mesh ts) = 0
                      then [''ERROR: Jacobi iterations for solution of '' @ name @ '' not converging. Aborting'']
                      else [])"
    using e s by (simp add: abortReport_def)
  show "trace (stateOf (jacobi ts alpha name bc others rhs st 0)) =
           trace (sweeps ts alpha bc others rhs (Suc (nat (maxIterations ts))) st) @ [Finalize]"
    using e s by (simp add: abortReport_def)
qed

lemma solver_ends:
  fixes put :: "jacobi_state \<Rightarrow> world"
  assumes so: "\<And>s. stdout (put s) = cout s" and ca: "\<And>s. calls (put s) = trace s"
  shows "(isReturned (mapOutcome put (jacobi ts alpha name bc others rhs st 0)) =
        (\<exists>n \<le> nat (maxIterations ts).
            residualAt ts alpha bc others rhs n
              st
            < cnTolerance (inputParams (mesh ts))))
   \<and> (isReturned (mapOutcome put (jacobi ts alpha name bc others rhs st 0)) \<longrightarrow>
          stdout (stateOf (mapOutcome put (jacobi ts alpha name bc others rhs st 0))) = cout st
        \<and> (\<exists>n \<le> nat (maxIterations ts).
               calls (stateOf (mapOutcome put (jacobi ts alpha name bc others rhs st 0))) =
                 trace (sweeps ts alpha bc others rhs (Suc n)
                          st)
             \<and> residualAt ts alpha bc others rhs n
                   st
                 < cnTolerance (inputParams (mesh ts))
             \<and> (\<forall>m<n. \<not> residualAt ts alpha bc others rhs m
                           st
                         < cnTolerance (inputParams (mesh ts)))))
   \<and> (\<not> isReturned (mapOutcome put (jacobi ts alpha name bc others rhs st 0)) \<longrightarrow>
          mapOutcome put (jacobi ts alpha name bc others rhs st 0) = Exited 0 (stateOf (mapOutcome put (jacobi ts alpha name bc others rhs st 0)))
        \<and> stdout (stateOf (mapOutcome put (jacobi ts alpha name bc others rhs st 0))) =
            cout st @ (if rank (mesh ts) = 0
                        then [''ERROR: Jacobi iterations for solution of '' @ name @ '' not converging. Aborting'']
                        else [])
        \<and> calls (stateOf (mapOutcome put (jacobi ts alpha name bc others rhs st 0))) =
            trace (sweeps ts alpha bc others rhs (Suc (nat (maxIterations ts)))
                     st)
            @ [Finalize])"
proof (intro conjI impI)
  let ?J = "jacobi ts alpha name bc others rhs st 0"
  let ?tol = "cnTolerance (inputParams (mesh ts))"
  show "isReturned (mapOutcome put ?J) =
            (\<exists>n \<le> nat (maxIterations ts). residualAt ts alpha bc others rhs n st < ?tol)"
    by (simp only: isReturned_mapOutcome jacobi_isReturned)
  {
    assume "isReturned (mapOutcome put ?J)"
    then have r: "isReturned ?J" by simp
    from jacobi_returned_cout [OF r]
    show "stdout (stateOf (mapOutcome put ?J)) = cout st"
      by (simp only: stateOf_mapOutcome so)
    from r obtain s where s: "?J = Returned s" by (cases ?J) simp_all
    from jacobi_Returned [OF s] obtain n where n: "n \<le> nat (maxIterations ts)"
      "s = sweeps ts alpha bc others rhs (Suc n) st"
      "residualAt ts alpha bc others rhs n st < ?tol"
      "\<forall>m<n. \<not> residualAt ts alpha bc others rhs m st < ?tol"
      by auto
    have "calls (stateOf (mapOutcome put ?J)) = trace (sweeps ts alpha bc others rhs (Suc n) st)"
      using s n(2) by (simp add: ca)
    with n(1,3,4)
    show "\<exists>n \<le> nat (maxIterations ts).
            calls (stateOf (mapOutcome put ?J)) = trace (sweeps ts alpha bc others rhs (Suc n) st)
          \<and> residualAt ts alpha bc others rhs n st < ?tol
          \<and> (\<forall>m<n. \<not> residualAt ts alpha bc others rhs m st < ?tol)"
      by blast
  }
  assume "\<not> isReturned (mapOutcome put ?J)"
  then have n: "\<not> isReturned ?J" by simp
  note ab = jacobi_aborted [OF n]
  show "mapOutcome put ?J = Exited 0 (stateOf (mapOutcome put ?J))"
    by (subst ab(1)) simp
  show "stdout (stateOf (mapOutcome put ?J)) =
          cout st @ (if rank (mesh ts) = 0
                     then [''ERROR: Jacobi iterations for solution of '' @ name @ '' not converging. Aborting'']
                     else [])"
    using ab(2) by (simp only: stateOf_mapOutcome so)
  show "calls (stateOf (mapOutcome put ?J)) =
          trace (sweeps ts alpha bc others rhs (Suc (nat (maxIterations ts))) st) @ [Finalize]"
    using ab(3) by (simp only: stateOf_mapOutcome ca)
qed

lemma solveVx_ends:
  "(isReturned (solveVx ts e w) =
        (\<exists>n \<le> nat (maxIterations ts).
            residualAt ts (nu ts) (bcVx e) (otherRanks e) (Vx (nseRHS w)) n
              \<lparr>phi = Vx_F (V w), temp = tempVx w, trace = calls w, cout = stdout w\<rparr>
            < cnTolerance (inputParams (mesh ts))))
   \<and> (isReturned (solveVx ts e w) \<longrightarrow>
          stdout (stateOf (solveVx ts e w)) = stdout w
        \<and> (\<exists>n \<le> nat (maxIterations ts).
               calls (stateOf (solveVx ts e w)) =
                 trace (sweeps ts (nu ts) (bcVx e) (otherRanks e) (Vx (nseRHS w)) (Suc n)
                          \<lparr>phi = Vx_F (V w), temp = tempVx w, trace = calls w, cout = stdout w\<rparr>)
             \<and> residualAt ts (nu ts) (bcVx e) (otherRanks e) (Vx (nseRHS w)) n
                   \<lparr>phi = Vx_F (V w), temp = tempVx w, trace = calls w, cout = stdout w\<rparr>
                 < cnTolerance (inputParams (mesh ts))
             \<and> (\<forall>m<n. \<not> residualAt ts (nu ts) (bcVx e) (otherRanks e) (Vx (nseRHS w)) m
                           \<lparr>phi = Vx_F (V w), temp = tempVx w, trace = calls w, cout = stdout w\<rparr>
                         < cnTolerance (inputParams (mesh ts)))))
   \<and> (\<not> isReturned (solveVx ts e w) \<longrightarrow>
          solveVx ts e w = Exited 0 (stateOf (solveVx ts e w))
        \<and> stdout (stateOf (solveVx ts e w)) =
            stdout w @ (if rank (mesh ts) = 0
                        then [''ERROR: Jacobi iterations for solution of Vx not converging. Aborting'']
                        else [])
        \<and> calls (stateOf (solveVx ts e w)) =
            trace (sweeps ts (nu ts) (bcVx e) (otherRanks e) (Vx (nseRHS w)) (Suc (nat (maxIterations ts)))
                     \<lparr>phi = Vx_F (V w), temp = tempVx w, trace = calls w, cout = stdout w\<rparr>)
            @ [Finalize])"
proof -
  have so: "stdout (putVx w s) = cout s" and ca: "calls (putVx w s) = trace s" for s
    by (simp_all add: putVx_def)
  from solver_ends [of "putVx w" ts "nu ts" "''Vx''" "bcVx e" "otherRanks e" "Vx (nseRHS w)"
         "\<lparr>phi = Vx_F (V w), temp = tempVx w, trace = calls w, cout = stdout w\<rparr>", OF so ca]
  show ?thesis unfolding solveVx_def by simp
qed

lemma solveVy_ends:
  "(isReturned (solveVy ts e w) =
        (\<exists>n \<le> nat (maxIterations ts).
            residualAt ts (nu ts) (bcVy e) (otherRanks e) (Vy (nseRHS w)) n
              \<lparr>phi = Vy_F (V w), temp = tempVy w, trace = calls w, cout = stdout w\<rparr>
            < cnTolerance (inputParams (mesh ts))))
   \<and> (isReturned (solveVy ts e w) \<longrightarrow>
          stdout (stateOf (solveVy ts e w)) = stdout w
        \<and> (\<exists>n \<le> nat (maxIterations ts).
               calls (stateOf (solveVy ts e w)) =
                 trace (sweeps ts (nu ts) (bcVy e) (otherRanks e) (Vy (nseRHS w)) (Suc n)
                          \<lparr>phi = Vy_F (V w), temp = tempVy w, trace = calls w, cout = stdout w\<rparr>)
             \<and> residualAt ts (nu ts) (bcVy e) (otherRanks e) (Vy (nseRHS w)) n
                   \<lparr>phi = Vy_F (V w), temp = tempVy w, trace = calls w, cout = stdout w\<rparr>
                 < cnTolerance (inputParams (mesh ts))
             \<and> (\<forall>m<n. \<not> residualAt ts (nu ts) (bcVy e) (otherRanks e) (Vy (nseRHS w)) m
                           \<lparr>phi = Vy_F (V w), temp = tempVy w, trace = calls w, cout = stdout w\<rparr>
                         < cnTolerance (inputParams (mesh ts)))))
   \<and> (\<not> isReturned (solveVy ts e w) \<longrightarrow>
          solveVy ts e w = Exited 0 (stateOf (solveVy ts e w))
        \<and> stdout (stateOf (solveVy ts e w)) =
            stdout w @ (if rank (mesh ts) = 0
                        then [''ERROR: Jacobi iterations for solution of Vy not converging. Aborting'']
                        else [])
        \<and> calls (stateOf (solveVy ts e w)) =
            trace (sweeps ts (nu ts) (bcVy e) (otherRanks e) (Vy (nseRHS w)) (Suc (nat (maxIterations ts)))
                     \<lparr>phi = Vy_F (V w), temp = tempVy w, trace = calls w, cout = stdout w\<rparr>)
            @ [Finalize])"
proof -
  have so: "stdout (putVy w s) = cout s" and ca: "calls (putVy w s) = trace s" for s
    by (simp_all add: putVy_def)
  from solver_ends [of "putVy w" ts "nu ts" "''Vy''" "bcVy e" "otherRanks e" "Vy (nseRHS w)"
         "\<lparr>phi = Vy_F (V w), temp = tempVy w, trace = calls w, cout = stdout w\<rparr>", OF so ca]
  show ?thesis unfolding solveVy_def by simp
qed

lemma solveVz_ends:
  "(isReturned (solveVz ts e w) =
        (\<exists>n \<le> nat (maxIterations ts).
            residualAt ts (nu ts) (bcVz e) (otherRanks e) (Vz (nseRHS w)) n
              \<lparr>phi = Vz_F (V w), temp = tempVz w, trace = calls w, cout = stdout w\<rparr>
            < cnTolerance (inputParams (mesh ts))))
   \<and> (isReturned (solveVz ts e w) \<longrightarrow>
          stdout (stateOf (solveVz ts e w)) = stdout w
        \<and> (\<exists>n \<le> nat (maxIterations ts).
               calls (stateOf (solveVz ts e w)) =
                 trace (sweeps ts (nu ts) (bcVz e) (otherRanks e) (Vz (nseRHS w)) (Suc n)
                          \<lparr>phi = Vz_F (V w), temp = tempVz w, trace = calls w, cout = stdout w\<rparr>)
             \<and> residualAt ts (nu ts) (bcVz e) (otherRanks e) (Vz (nseRHS w)) n
                   \<lparr>phi = Vz_F (V w), temp = tempVz w, trace = calls w, cout = stdout w\<rparr>
                 < cnTolerance (inputParams (mesh ts))
             \<and> (\<forall>m<n. \<not> residualAt ts (nu ts) (bcVz e) (otherRanks e) (Vz (nseRHS w)) m
                           \<lparr>phi = Vz_F (V w), temp = tempVz w, trace = calls w, cout = stdout w\<rparr>
                         < cnTolerance (inputParams (mesh ts)))))
   \<and> (\<not> isReturned (solveVz ts e w) \<longrightarrow>
          solveVz ts e w = Exited 0 (stateOf (solveVz ts e w))
        \<and> stdout (stateOf (solveVz ts e w)) =
            stdout w @ (if rank (mesh ts) = 0
                        then [''ERROR: Jacobi iterations for solution of Vz not converging. Aborting'']
                        else [])
        \<and> calls (stateOf (solveVz ts e w)) =
            trace (sweeps ts (nu ts) (bcVz e) (otherRanks e) (Vz (nseRHS w)) (Suc (nat (maxIterations ts)))
                     \<lparr>phi = Vz_F (V w), temp = tempVz w, trace = calls w, cout = stdout w\<rparr>)
            @ [Finalize])"
proof -
  have so: "stdout (putVz w s) = cout s" and ca: "calls (putVz w s) = trace s" for s
    by (simp_all add: putVz_def)
  from solver_ends [of "putVz w" ts "nu ts" "''Vz''" "bcVz e" "otherRanks e" "Vz (nseRHS w)"
         "\<lparr>phi = Vz_F (V w), temp = tempVz w, trace = calls w, cout = stdout w\<rparr>", OF so ca]
  show ?thesis unfolding solveVz_def by simp
qed

lemma solveT_ends:
  "(isReturned (solveT ts e w) =
        (\<exists>n \<le> nat (maxIterations ts).
            residualAt ts (kappa ts) (bcT (T w)) (otherRanks e) (tmpRHS w) n
              \<lparr>phi = F (T w), temp = tempT w, trace = calls w, cout = stdout w\<rparr>
            < cnTolerance (inputParams (mesh ts))))
   \<and> (isReturned (solveT ts e w) \<longrightarrow>
          stdout (stateOf (solveT ts e w)) = stdout w
        \<and> (\<exists>n \<le> nat (maxIterations ts).
               calls (stateOf (solveT ts e w)) =
                 trace (sweeps ts (kappa ts) (bcT (T w)) (otherRanks e) (tmpRHS w) (Suc n)
                          \<lparr>phi = F (T w), temp = tempT w, trace = calls w, cout = stdout w\<rparr>)
             \<and> residualAt ts (kappa ts) (bcT (T w)) (otherRanks e) (tmpRHS w) n
                   \<lparr>phi = F (T w), temp = tempT w, trace = calls w, cout = stdout w\<rparr>
                 < cnTolerance (inputParams (mesh ts))
             \<and> (\<forall>m<n. \<not> residualAt ts (kappa ts) (bcT (T w)) (otherRanks e) (tmpRHS w) m
                           \<lparr>phi = F (T w), temp = tempT w, trace = calls w, cout = stdout w\<rparr>
                         < cnTolerance (inputParams (mesh ts)))))
   \<and> (\<not> isReturned (solveT ts e w) \<longrightarrow>
          solveT ts e w = Exited 0 (stateOf (solveT ts e w))
        \<and> stdout (stateOf (solveT ts e w)) =
            stdout w @ (if rank (mesh ts) = 0
                        then [''ERROR: Jacobi iterations for solution of T not converging. Aborting'']
                        else [])
        \<and> calls (stateOf (solveT ts e w)) =
            trace (sweeps ts (kappa ts) (bcT (T w)) (otherRanks e) (tmpRHS w) (Suc (nat (maxIterations ts)))
                     \<lparr>phi = F (T w), temp = tempT w, trace = calls w, cout = stdout w\<rparr>)
            @ [Finalize])"
proof -
  have so: "stdout (putT w s) = cout s" and ca: "calls (putT w s) = trace s" for s
    by (simp_all add: putT_def)
  from solver_ends [of "putT w" ts "kappa ts" "''T''" "bcT (T w)" "otherRanks e" "tmpRHS w"
         "\<lparr>phi = F (T w), temp = tempT w, trace = calls w, cout = stdout w\<rparr>", OF so ca]
  show ?thesis unfolding solveT_def by simp
qed

text \<open>
  C2. Each of \<^verbatim>\<open>solveVx\<close>, \<^verbatim>\<open>solveVy\<close>, \<^verbatim>\<open>solveVz\<close> and \<^verbatim>\<open>solveT\<close> returns
  exactly when one of its first \<open>maxIterations + 1\<close> sweeps finds a global maximum of the
  residual below \<^verbatim>\<open>cnTolerance\<close>; it returns after the first such sweep, having written
  nothing to \<^verbatim>\<open>std::cout\<close>. Otherwise the iteration count has exceeded
  \<^verbatim>\<open>maxIterations\<close>: the solver writes one message naming its component, on rank 0
  only, calls \<^verbatim>\<open>MPI_Finalize()\<close> after the \<open>maxIterations + 1\<close> sweeps it has run, and
  ends the program (with \<^verbatim>\<open>exit(0)\<close>).
\<close>

theorem solvers_end:
  "(isReturned (solveVx ts e w) =
        (\<exists>n \<le> nat (maxIterations ts).
            residualAt ts (nu ts) (bcVx e) (otherRanks e) (Vx (nseRHS w)) n
              \<lparr>phi = Vx_F (V w), temp = tempVx w, trace = calls w, cout = stdout w\<rparr>
            < cnTolerance (inputParams (mesh ts))))
   \<and> (isReturned (solveVx ts e w) \<longrightarrow>
          stdout (stateOf (solveVx ts e w)) = stdout w
        \<and> (\<exists>n \<le> nat (maxIterations ts).
               calls (stateOf (solveVx ts e w)) =
                 trace (sweeps ts (nu ts) (bcVx e) (otherRanks e) (Vx (nseRHS w)) (Suc n)
                          \<lparr>phi = Vx_F (V w), temp = tempVx w, trace = calls w, cout = stdout w\<rparr>)
             \<and> residualAt ts (nu ts) (bcVx e) (otherRanks e) (Vx (nseRHS w)) n
                   \<lparr>phi = Vx_F (V w), temp = tempVx w, trace = calls w, cout = stdout w\<rparr>
                 < cnTolerance (inputParams (mesh ts))
             \<and> (\<forall>m<n. \<not> residualAt ts (nu ts) (bcVx e) (otherRanks e) (Vx (nseRHS w)) m
                           \<lparr>phi = Vx_F (V w), temp = tempVx w, trace = calls w, cout = stdout w\<rparr>
                         < cnTolerance (inputParams (mesh ts)))))
   \<and> (\<not> isReturned (solveVx ts e w) \<longrightarrow>
          solveVx ts e w = Exited 0 (stateOf (solveVx ts e w))
        \<and> stdout (stateOf (solveVx ts e w)) =
            stdout w @ (if rank (mesh ts) = 0
                        then [''ERROR: Jacobi iterations for solution of Vx not converging. Aborting'']
                        else [])
        \<and> calls (stateOf (solveVx ts e w)) =
            trace (sweeps ts (nu ts) (bcVx e) (otherRanks e) (Vx (nseRHS w)) (Suc (nat (maxIterations ts)))
                     \<lparr>phi = Vx_F (V w), temp = tempVx w, trace = calls w, cout = stdout w\<rparr>)
            @ [Finalize])
   \<and> (isReturned (solveVy ts e w) =
        (\<exists>n \<le> nat (maxIterations ts).
            residualAt ts (nu ts) (bcVy e) (otherRanks e) (Vy (nseRHS w)) n
              \<lparr>phi = Vy_F (V w), temp = tempVy w, trace = calls w, cout = stdout w\<rparr>
            < cnTolerance (inputParams (mesh ts))))
   \<and> (isReturned (solveVy ts e w) \<longrightarrow>
          stdout (stateOf (solveVy ts e w)) = stdout w
        \<and> (\<exists>n \<le> nat (maxIterations ts).
               calls (stateOf (solveVy ts e w)) =
                 trace (sweeps ts (nu ts) (bcVy e) (otherRanks e) (Vy (nseRHS w)) (Suc n)
                          \<lparr>phi = Vy_F (V w), temp = tempVy w, trace = calls w, cout = stdout w\<rparr>)
             \<and> residualAt ts (nu ts) (bcVy e) (otherRanks e) (Vy (nseRHS w)) n
                   \<lparr>phi = Vy_F (V w), temp = tempVy w, trace = calls w, cout = stdout w\<rparr>
                 < cnTolerance (inputParams (mesh ts))
             \<and> (\<forall>m<n. \<not> residualAt ts (nu ts) (bcVy e) (otherRanks e) (Vy (nseRHS w)) m
                           \<lparr>phi = Vy_F (V w), temp = tempVy w, trace = calls w, cout = stdout w\<rparr>
                         < cnTolerance (inputParams (mesh ts)))))
   \<and> (\<not> isReturned (solveVy ts e w) \<longrightarrow>
          solveVy ts e w = Exited 0 (stateOf (solveVy ts e w))
        \<and> stdout (stateOf (solveVy ts e w)) =
            stdout w @ (if rank (mesh ts) = 0
                        then [''ERROR: Jacobi iterations for solution of Vy not converging. Aborting'']
                        else [])
        \<and> calls (stateOf (solveVy ts e w)) =
            trace (sweeps ts (nu ts) (bcVy e) (otherRanks e) (Vy (nseRHS w)) (Suc (nat (maxIterations ts)))
                     \<lparr>phi = Vy_F (V w), temp = tempVy w, trace = calls w, cout = stdout w\<rparr>)
            @ [Finalize])
   \<and> (isReturned (solveVz ts e w) =
        (\<exists>n \<le> nat (maxIterations ts).
            residualAt ts (nu ts) (bcVz e) (otherRanks e) (Vz (nseRHS w)) n
              \<lparr>phi = Vz_F (V w), temp = tempVz w, trace = calls w, cout = stdout w\<rparr>
            < cnTolerance (inputParams (mesh ts))))
   \<and> (isReturned (solveVz ts e w) \<longrightarrow>
          stdout (stateOf (solveVz ts e w)) = stdout w
        \<and> (\<exists>n \<le> nat (maxIterations ts).
               calls (stateOf (solveVz ts e w)) =
                 trace (sweeps ts (nu ts) (bcVz e) (otherRanks e) (Vz (nseRHS w)) (Suc n)
                          \<lparr>phi = Vz_F (V w), temp = tempVz w, trace = calls w, cout = stdout w\<rparr>)
             \<and> residualAt ts (nu ts) (bcVz e) (otherRanks e) (Vz (nseRHS w)) n
                   \<lparr>phi = Vz_F (V w), temp = tempVz w, trace = calls w, cout = stdout w\<rparr>
                 < cnTolerance (inputParams (mesh ts))
             \<and> (\<forall>m<n. \<not> residualAt ts (nu ts) (bcVz e) (otherRanks e) (Vz (nseRHS w)) m
                           \<lparr>phi = Vz_F (V w), temp = tempVz w, trace = calls w, cout = stdout w\<rparr>
                         < cnTolerance (inputParams (mesh ts)))))
   \<and> (\<not> isReturned (solveVz ts e w) \<longrightarrow>
          solveVz ts e w = Exited 0 (stateOf (solveVz ts e w))
        \<and> stdout (stateOf (solveVz ts e w)) =
            stdout w @ (if rank (mesh ts) = 0
                        then [''ERROR: Jacobi iterations for solution of Vz not converging. Aborting'']
                        else [])
        \<and> calls (stateOf (solveVz ts e w)) =
            trace (sweeps ts (nu ts) (bcVz e) (otherRanks e) (Vz (nseRHS w)) (Suc (nat (maxIterations ts)))
                     \<lparr>phi = Vz_F (V w), temp = tempVz w, trace = calls w, cout = stdout w\<rparr>)
            @ [Finalize])
   \<and> (isReturned (solveT ts e w) =
        (\<exists>n \<le> nat (maxIterations ts).
            residualAt ts (kappa ts) (bcT (T w)) (otherRanks e) (tmpRHS w) n
              \<lparr>phi = F (T w), temp = tempT w, trace = calls w, cout = stdout w\<rparr>
            < cnTolerance (inputParams (mesh ts))))
   \<and> (isReturned (solveT ts e w) \<longrightarrow>
          stdout (stateOf (solveT ts e w)) = stdout w
        \<and> (\<exists>n \<le> nat (maxIterations ts).
               calls (stateOf (solveT ts e w)) =
                 trace (sweeps ts (kappa ts) (bcT (T w)) (otherRanks e) (tmpRHS w) (Suc n)
                          \<lparr>phi = F (T w), temp = tempT w, trace = calls w, cout = stdout w\<rparr>)
             \<and> residualAt ts (kappa ts) (bcT (T w)) (otherRanks e) (tmpRHS w) n
                   \<lparr>phi = F (T w), temp = tempT w, trace = calls w, cout = stdout w\<rparr>
                 < cnTolerance (inputParams (mesh ts))
             \<and> (\<forall>m<n. \<not> residualAt ts (kappa ts) (bcT (T w)) (otherRanks e) (tmpRHS w) m
                           \<lparr>phi = F (T w), temp = tempT w, trace = calls w, cout = stdout w\<rparr>
                         < cnTolerance (inputParams (mesh ts)))))
   \<and> (\<not> isReturned (solveT ts e w) \<longrightarrow>
          solveT ts e w = Exited 0 (stateOf (solveT ts e w))
        \<and> stdout (stateOf (solveT ts e w)) =
            stdout w @ (if rank (mesh ts) = 0
                        then [''ERROR: Jacobi iterations for solution of T not converging. Aborting'']
                        else [])
        \<and> calls (stateOf (solveT ts e w)) =
            trace (sweeps ts (kappa ts) (bcT (T w)) (otherRanks e) (tmpRHS w) (Suc (nat (maxIterations ts)))
                     \<lparr>phi = F (T w), temp = tempT w, trace = calls w, cout = stdout w\<rparr>)
            @ [Finalize])"
  by (intro conjI solveVx_ends [THEN conjunct1] solveVx_ends [THEN conjunct2, THEN conjunct1]
        solveVx_ends [THEN conjunct2, THEN conjunct2]
        solveVy_ends [THEN conjunct1] solveVy_ends [THEN conjunct2, THEN conjunct1]
        solveVy_ends [THEN conjunct2, THEN conjunct2]
        solveVz_ends [THEN conjunct1] solveVz_ends [THEN conjunct2, THEN conjunct1]
        solveVz_ends [THEN conjunct2, THEN conjunct2]
        solveT_ends [THEN conjunct1] solveT_ends [THEN conjunct2, THEN conjunct1]
        solveT_ends [THEN conjunct2, THEN conjunct2])

lemma ex_solveVx:
  "solveVx exTs exEnv exWorld =
     Exited 0
       (exWorld\<lparr>V := (V exWorld)\<lparr>Vx_F := (\<lambda>c. if c = (1, 1, 1) then 5 / 4 else 0)\<rparr>,
                tempVx := (\<lambda>c. if c = (1, 1, 1) then 3 else 0),
                calls := [ImposeVxBC, Allreduce, Finalize],
                stdout := [''ERROR: Jacobi iterations for solution of Vx not converging. Aborting'']\<rparr>)"
proof -
  have w: "nu exTs = 1" "Vx (nseRHS exWorld) = (\<lambda>c. 2)"
    "\<lparr>phi = Vx_F (V exWorld), temp = tempVx exWorld, trace = calls exWorld, cout = stdout exWorld\<rparr> = exState"
    by (simp_all add: exTs_eq exWorld_def exState_def plainvf_assign_real_def)
  show ?thesis by (simp add: solveVx_def w ex_jacobi putVx_def)
qed

lemma ex_sweep_rest:
  "snd (jacobiSweep exTs 1 (bcVx exEnv) (otherRanks exEnv) (\<lambda>c. 2) (exState\<lparr>phi := (\<lambda>c. 0)\<rparr>)) = 0"
  by (simp add: jacobiSweep_def firstLoop_def Let_def bcVx_def ex_simps
       jacobiCandidate_def jacobiResidual_def fun_eq_iff)

theorem solvers_end_witness:
  "\<not> isReturned (solveVx exTs exEnv exWorld)
   \<and> rank (mesh exTs) = 0
   \<and> solveVx exTs exEnv exWorld = Exited 0 (stateOf (solveVx exTs exEnv exWorld))
   \<and> stdout (stateOf (solveVx exTs exEnv exWorld)) =
        [''ERROR: Jacobi iterations for solution of Vx not converging. Aborting'']
   \<and> calls (stateOf (solveVx exTs exEnv exWorld)) = [ImposeVxBC, Allreduce, Finalize]
   \<and> residualAt exTs (nu exTs) (bcVx exEnv) (otherRanks exEnv) (Vx (nseRHS exWorld)) 0
        \<lparr>phi = (\<lambda>c. 0), temp = tempVx exWorld, trace = calls exWorld, cout = stdout exWorld\<rparr>
       < cnTolerance (inputParams (mesh exTs))
   \<and> isReturned (solveVx exTs exEnv (exWorld\<lparr>V := (V exWorld)\<lparr>Vx_F := (\<lambda>c. 0)\<rparr>\<rparr>))
   \<and> stdout (stateOf (solveVx exTs exEnv (exWorld\<lparr>V := (V exWorld)\<lparr>Vx_F := (\<lambda>c. 0)\<rparr>\<rparr>))) = []"
proof -
  let ?w = "exWorld\<lparr>V := (V exWorld)\<lparr>Vx_F := (\<lambda>c. 0)\<rparr>\<rparr>"
  have m: "rank (mesh exTs) = 0" "maxIterations exTs = 0"
    "cnTolerance (inputParams (mesh exTs)) = 1 / 1000" "nu exTs = 1"
    by (simp_all add: exTs_eq exGrid_def exParams_def)
  have w: "Vx (nseRHS exWorld) = (\<lambda>c. 2)" "stdout exWorld = []" "calls exWorld = []"
    "tempVx exWorld = (\<lambda>c. 0)"
    by (simp_all add: exWorld_def plainvf_assign_real_def)
  have st: "\<lparr>phi = (\<lambda>c. 0), temp = (\<lambda>c. 0), trace = [], cout = []\<rparr> = exState\<lparr>phi := (\<lambda>c. 0)\<rparr>"
    by (simp add: exState_def)
  have n: "\<not> isReturned (solveVx exTs exEnv exWorld)" by (simp add: ex_solveVx)
  have r: "residualAt exTs (nu exTs) (bcVx exEnv) (otherRanks exEnv) (Vx (nseRHS exWorld)) 0
        \<lparr>phi = (\<lambda>c. 0), temp = tempVx exWorld, trace = calls exWorld, cout = stdout exWorld\<rparr>
       < cnTolerance (inputParams (mesh exTs))"
    by (simp add: residualAt_def m w st ex_sweep_rest)
  note a = solvers_end [of exTs exEnv exWorld, THEN conjunct2, THEN conjunct2, THEN conjunct1]
  note b1 = solvers_end [of exTs exEnv ?w, THEN conjunct1]
  note b2 = solvers_end [of exTs exEnv ?w, THEN conjunct2, THEN conjunct1]
  have r': "isReturned (solveVx exTs exEnv ?w)"
    using b1 r by (auto simp: m)
  have "stdout (stateOf (solveVx exTs exEnv ?w)) = []"
    using b2 r' by (simp add: w)
  moreover have "solveVx exTs exEnv exWorld = Exited 0 (stateOf (solveVx exTs exEnv exWorld))"
    using a n by blast
  moreover have "stdout (stateOf (solveVx exTs exEnv exWorld)) =
        [''ERROR: Jacobi iterations for solution of Vx not converging. Aborting'']"
    using a n by (simp add: m w)
  moreover have "calls (stateOf (solveVx exTs exEnv exWorld)) = [ImposeVxBC, Allreduce, Finalize]"
    by (simp add: ex_solveVx)
  ultimately show ?thesis using n r r' m(1) by simp
qed

lemma ln2_cube: "0 < (ln (2::real)) ^ 3" "(ln (2::real)) ^ 3 < 1"
proof -
  have p: "0 < ln (2::real)" by simp
  have l: "ln (2::real) < 1" by (rule ln_2_less_1)
  from p show "0 < (ln (2::real)) ^ 3" by simp
  from p l show "(ln (2::real)) ^ 3 < 1" by (simp add: power_less_one_iff)
qed

lemma int_of_real_floor: "0 \<le> x \<Longrightarrow> int_of_real x = \<lfloor>x\<rfloor>"
  by (simp add: int_of_real_def)

lemma floor_eq_ceiling_Ints: "(\<lfloor>x::real\<rfloor> = \<lceil>x\<rceil>) = (x \<in> \<int>)"
proof
  assume "\<lfloor>x\<rfloor> = \<lceil>x\<rceil>"
  then have "x = of_int \<lfloor>x\<rfloor>" by (simp add: ceiling_altdef split: if_splits)
  then show "x \<in> \<int>" by (metis Ints_of_int)
next
  assume "x \<in> \<int>"
  then obtain z where "x = of_int z" by (auto elim: Ints_cases)
  then show "\<lfloor>x\<rfloor> = \<lceil>x\<rceil>" by simp
qed

text \<open>
  C3 (as amended). For a core of \<open>N = Nx \<cdot> Ny \<cdot> Nz \<ge> 1\<close> cells (\<open>N\<close> an \<^verbatim>\<open>int\<close>), the
  constructor sets \<^verbatim>\<open>maxIterations\<close> to \<open>(log N)\<^sup>3\<close> with its fractional part
  discarded, that is, to its floor; this is at most the ceiling, and equal to it only
  when \<open>(log N)\<^sup>3\<close> is an integer.
\<close>

theorem maxIterations_truncated:
  assumes "coreSize (mesh ts) = (nx, ny, nz)" and "1 \<le> nx * ny * nz" and "nx * ny * nz < 2 ^ 31"
  shows "maxIterations (eulerCN_d3_init ts) = \<lfloor>(ln (real_of_int (nx * ny * nz))) ^ 3\<rfloor>
       \<and> maxIterations (eulerCN_d3_init ts) \<le> \<lceil>(ln (real_of_int (nx * ny * nz))) ^ 3\<rceil>
       \<and> (maxIterations (eulerCN_d3_init ts) = \<lceil>(ln (real_of_int (nx * ny * nz))) ^ 3\<rceil>)
           = ((ln (real_of_int (nx * ny * nz))) ^ 3 \<in> \<int>)"
proof -
  let ?x = "(ln (real_of_int (nx * ny * nz))) ^ 3"
  have "(1::real) \<le> real_of_int (nx * ny * nz)" using assms(2) by (simp only: of_int_1_le_iff)
  then have "0 \<le> ln (real_of_int (nx * ny * nz))" by (rule ln_ge_zero)
  then have nn: "0 \<le> ?x" by (rule zero_le_power)
  have "maxIterations (eulerCN_d3_init ts) = int_of_real ?x"
    using assms(1) by (simp add: eulerCN_d3_init_def setCoefficients_def Let_def)
  then have m: "maxIterations (eulerCN_d3_init ts) = \<lfloor>?x\<rfloor>"
    using nn by (simp only: int_of_real_floor)
  show ?thesis
    unfolding m using floor_eq_ceiling_Ints [of ?x] floor_le_ceiling [of ?x] by blast
qed

theorem maxIterations_truncated_witness:
  "coreSize (mesh (exTs0\<lparr>mesh := exGrid\<lparr>coreSize := (2, 1, 1)\<rparr>\<rparr>)) = (2, 1, 1)
   \<and> (1::int) \<le> 2 * 1 * 1 \<and> (2::int) * 1 * 1 < 2 ^ 31
   \<and> maxIterations (eulerCN_d3_init (exTs0\<lparr>mesh := exGrid\<lparr>coreSize := (2, 1, 1)\<rparr>\<rparr>))
       = \<lfloor>(ln (real_of_int (2 * 1 * 1))) ^ 3\<rfloor>
   \<and> \<lfloor>(ln (real_of_int (2 * 1 * 1))) ^ 3\<rfloor> = 0"
proof -
  have f: "\<lfloor>(ln (2::real)) ^ 3\<rfloor> = 0" using ln2_cube by (simp add: floor_eq_iff)
  from maxIterations_truncated [of "exTs0\<lparr>mesh := exGrid\<lparr>coreSize := (2, 1, 1)\<rparr>\<rparr>" 2 1 1]
  show ?thesis using f by simp
qed

text \<open>
  C3 as stated fails: for a core of \<open>2 \<times> 1 \<times> 1\<close> cells the constructor sets
  \<^verbatim>\<open>maxIterations\<close> to \<open>0\<close>, while the ceiling of \<open>(log 2)\<^sup>3\<close> is \<open>1\<close>.
\<close>

theorem maxIterations_ceiling_counterexample:
  "maxIterations (eulerCN_d3_init (exTs0\<lparr>mesh := exGrid\<lparr>coreSize := (2, 1, 1)\<rparr>\<rparr>)) = 0
   \<and> \<lceil>(ln (real_of_int (2 * 1 * 1))) ^ 3\<rceil> = 1"
proof -
  have f: "\<lfloor>(ln (2::real)) ^ 3\<rfloor> = 0" using ln2_cube by (simp add: floor_eq_iff)
  have c: "\<lceil>(ln (2::real)) ^ 3\<rceil> = 1" using ln2_cube by (simp add: ceiling_eq_iff)
  have nn: "0 \<le> (ln (2::real)) ^ 3" using ln2_cube by simp
  show ?thesis using f c nn
    by (simp add: eulerCN_d3_init_def setCoefficients_def int_of_real_def Let_def)
qed

subsection \<open>The sub-grid model in a time step\<close>

lemma lesCalls_append [simp]: "lesCalls (a @ b) = lesCalls a @ lesCalls b"
  by (simp add: lesCalls_def)

lemma lesCalls_single [simp]:
  "lesCalls [SyncData n] = []" "lesCalls [ImposeBC n wl] = []" "lesCalls [ImposeVxBC] = []"
  "lesCalls [ImposeVyBC] = []" "lesCalls [ImposeVzBC] = []" "lesCalls [ImposeVBCs] = []"
  "lesCalls [Allreduce] = []" "lesCalls [Finalize] = []"
  "lesCalls [ComputeSG_V] = [ComputeSG_V]" "lesCalls [ComputeSG_VT] = [ComputeSG_VT]"
  "lesCalls [] = []"
  by (simp_all add: lesCalls_def)

lemma lesCalls_imposeBCs [simp]: "lesCalls (snd (imposeBCs PLANAR s)) = lesCalls (snd s)"
  by (cases s) (simp add: snd_imposeBCs lesCalls_def)

lemma lesCalls_field_syncData [simp]: "lesCalls (snd (field_syncData s)) = lesCalls (snd s)"
  by simp

lemma quietBC_bcs [simp]: "quietBC (bcVx e)" "quietBC (bcVy e)" "quietBC (bcVz e)" "quietBC (bcT sf)"
  by (simp_all add: quietBC_def bcVx_def bcVy_def bcVz_def bcT_def split: prod.splits)
     (metis lesCalls_imposeBCs snd_conv)

lemma lesCalls_sweep:
  "quietBC bc \<Longrightarrow> lesCalls (trace (fst (jacobiSweep ts alpha bc others rhs st))) = lesCalls (trace st)"
  by (simp add: jacobiSweep_def Let_def quietBC_def)

lemma lesCalls_jacobi:
  "quietBC bc \<Longrightarrow>
   lesCalls (trace (stateOf (jacobi ts alpha name bc others rhs st it))) = lesCalls (trace st)"
proof (induction ts alpha name bc others rhs st it rule: jacobi.induct)
  case (1 ts alpha name bc others rhs st it)
  then show ?case
    by (simp add: jacobi.simps [of ts alpha name bc others rhs st it] lesCalls_sweep abortReport_def)
qed

lemma lesKept_refl [simp]: "lesKept w w"
  by (simp add: lesKept_def)

lemma lesKept_trans: "lesKept a b \<Longrightarrow> lesKept b c \<Longrightarrow> lesKept a c"
  by (simp add: lesKept_def)

lemma lesKept_solves:
  "lesKept w (stateOf (solveVx ts e w))" "lesKept w (stateOf (solveVy ts e w))"
  "lesKept w (stateOf (solveVz ts e w))" "lesKept w (stateOf (solveT ts e w))"
  by (simp_all add: lesKept_def solveVx_def solveVy_def solveVz_def solveT_def
      putVx_def putVy_def putVz_def putT_def lesCalls_jacobi)

lemma lesKept_andThen:
  assumes "lesKept w (stateOf x)" and "\<And>s. lesKept s (stateOf (f s))"
  shows "lesKept w (stateOf (andThen x f))"
proof (cases x)
  case (Returned s)
  with assms(1) assms(2) [of s] show ?thesis by (auto intro: lesKept_trans)
qed (use assms(1) in simp_all)

lemma lesKept_run:
  "(\<And>f s. f \<in> set stmts \<Longrightarrow> lesKept s (f s)) \<Longrightarrow> lesKept w (run stmts w)"
proof (induction stmts arbitrary: w)
  case Nil
  then show ?case by (simp add: run_def)
next
  case (Cons g stmts)
  have "lesKept w (g w)" using Cons.prems by simp
  moreover have "lesKept (g w) (run stmts (g w))" using Cons.IH Cons.prems by simp
  ultimately show ?case using lesKept_trans by (simp add: run_def)
qed


lemma lesKept_project: "lesKept w (stateOf (Returned (project ts e withT w)))"
  unfolding stateOf.simps project_def
  by (rule lesKept_run) (auto simp: lesKept_def case_prod_beta split: if_splits)

lemma run_Cons: "run (f # fs) w = run fs (f w)"
  by (simp add: run_def)

lemma run_Nil: "run [] w = w"
  by (simp add: run_def)

lemma lesKept_assembleV: "lesKept w (assembleV ts e w)"
  unfolding assembleV_def by (rule lesKept_run) (auto simp: lesKept_def)

lemma lesKept_assembleVT: "lesKept w (assembleVT ts e w)"
  unfolding assembleVT_def by (rule lesKept_run) (auto simp: lesKept_def case_prod_beta)

lemma lesKept_finishV: "lesKept w (finishV ts e w)"
  unfolding finishV_def by (rule lesKept_run) (auto simp: lesKept_def case_prod_beta)

lemma lesKept_finishT: "lesKept w (finishT ts e w)"
  unfolding finishT_def by (rule lesKept_run) (auto simp: lesKept_def)

lemma lesKept_sync: "lesKept w (syncV e w)" "lesKept w (syncT e w)"
  by (simp_all add: lesKept_def syncV_def syncT_def)

lemma lesKept_timeAdvance:
  "lesKept (lesStep ts e (assembleV ts e w)) (stateOf (timeAdvance ts e w))"
proof -
  let ?a = "lesStep ts e (assembleV ts e w)"
  let ?b = "syncV e (finishV ts e ?a)"
  have ab: "lesKept ?a ?b"
    using lesKept_finishV [of ?a ts e] lesKept_sync(1) [of "finishV ts e ?a" e]
    by (rule lesKept_trans)
  have "lesKept ?b (stateOf (timeAdvance ts e w))"
    unfolding timeAdvance_def
    by (intro lesKept_andThen lesKept_solves lesKept_project)
  with ab show ?thesis by (rule lesKept_trans)
qed

lemma lesKept_timeAdvance_T:
  "lesKept (lesStep_T ts e (assembleVT ts e w)) (stateOf (timeAdvance_T ts e w))"
proof -
  let ?a = "lesStep_T ts e (assembleVT ts e w)"
  let ?b = "finishT ts e (finishV ts e ?a)"
  let ?c = "syncT e (syncV e ?b)"
  have "lesKept ?a ?b"
    using lesKept_finishV [of ?a ts e] lesKept_finishT [of "finishV ts e ?a" ts e]
    by (rule lesKept_trans)
  moreover have "lesKept ?b ?c"
    using lesKept_sync(1) [of ?b e] lesKept_sync(2) [of "syncV e ?b" e]
    by (rule lesKept_trans)
  ultimately have ac: "lesKept ?a ?c" by (rule lesKept_trans)
  have "lesKept ?c (stateOf (timeAdvance_T ts e w))"
    unfolding timeAdvance_T_def
    by (intro lesKept_andThen lesKept_solves lesKept_project)
  with ac show ?thesis by (rule lesKept_trans)
qed

lemma calls_lesStep:
  "calls (lesStep ts e w) =
     calls w @ (if lesModel (inputParams (mesh ts)) \<noteq> 0
                   \<and> solTime ts > 5 * tStp (inputParams (mesh ts))
                then [ComputeSG_V] else [])"
  "subgridEnergy (lesStep ts e w) =
     (if lesModel (inputParams (mesh ts)) \<noteq> 0 \<and> solTime ts > 5 * tStp (inputParams (mesh ts))
      then fst (sgsLES_computeSG e (nseRHS w) (V w)) else subgridEnergy w)"
  by (simp_all add: lesStep_def case_prod_beta)

lemma calls_lesStep_T:
  "calls (lesStep_T ts e w) =
     calls w @ (if solTime ts > 5 * tStp (inputParams (mesh ts))
                then (if lesModel (inputParams (mesh ts)) = 1 then [ComputeSG_V]
                      else if lesModel (inputParams (mesh ts)) = 2 then [ComputeSG_VT] else [])
                else [])"
  "subgridEnergy (lesStep_T ts e w) =
     (if solTime ts > 5 * tStp (inputParams (mesh ts))
      then (if lesModel (inputParams (mesh ts)) = 1
            then fst (sgsLES_computeSG e (nseRHS w) (V w))
            else if lesModel (inputParams (mesh ts)) = 2
            then fst (sgsLES_computeSG_T e (nseRHS w) (tmpRHS w) (V w) (T w))
            else if lesModel (inputParams (mesh ts)) = 0 then subgridEnergy w else 0)
      else subgridEnergy w)"
  "tmpRHS (lesStep_T ts e w) =
     (if solTime ts > 5 * tStp (inputParams (mesh ts)) \<and> lesModel (inputParams (mesh ts)) = 2
      then snd (snd (sgsLES_computeSG_T e (nseRHS w) (tmpRHS w) (V w) (T w)))
      else tmpRHS w)"
  "nseRHS (lesStep_T ts e w) =
     (if solTime ts > 5 * tStp (inputParams (mesh ts)) \<and> lesModel (inputParams (mesh ts)) = 1
      then snd (sgsLES_computeSG e (nseRHS w) (V w))
      else if solTime ts > 5 * tStp (inputParams (mesh ts)) \<and> lesModel (inputParams (mesh ts)) = 2
      then fst (snd (sgsLES_computeSG_T e (nseRHS w) (tmpRHS w) (V w) (T w)))
      else nseRHS w)"
  by (simp_all add: lesStep_T_def case_prod_beta)

lemma les_timeAdvance:
  "lesCalls (calls (stateOf (timeAdvance ts e w))) =
     lesCalls (calls w) @ (if lesModel (inputParams (mesh ts)) \<noteq> 0
                              \<and> solTime ts > 5 * tStp (inputParams (mesh ts))
                           then [ComputeSG_V] else [])"
  "subgridEnergy (stateOf (timeAdvance ts e w)) =
     (if lesModel (inputParams (mesh ts)) \<noteq> 0 \<and> solTime ts > 5 * tStp (inputParams (mesh ts))
      then fst (sgsLES_computeSG e (nseRHS (assembleV ts e w)) (V (assembleV ts e w)))
      else subgridEnergy w)"
  using lesKept_timeAdvance [of ts e w] lesKept_assembleV [of w ts e]
  by (simp_all add: lesKept_def calls_lesStep)

lemma les_timeAdvance_T:
  "lesCalls (calls (stateOf (timeAdvance_T ts e w))) =
     lesCalls (calls w) @
       (if solTime ts > 5 * tStp (inputParams (mesh ts))
        then (if lesModel (inputParams (mesh ts)) = 1 then [ComputeSG_V]
              else if lesModel (inputParams (mesh ts)) = 2 then [ComputeSG_VT] else [])
        else [])"
  "subgridEnergy (stateOf (timeAdvance_T ts e w)) =
     (if solTime ts > 5 * tStp (inputParams (mesh ts))
      then (if lesModel (inputParams (mesh ts)) = 1
            then fst (sgsLES_computeSG e (nseRHS (assembleVT ts e w)) (V (assembleVT ts e w)))
            else if lesModel (inputParams (mesh ts)) = 2
            then fst (sgsLES_computeSG_T e (nseRHS (assembleVT ts e w)) (tmpRHS (assembleVT ts e w))
                        (V (assembleVT ts e w)) (T (assembleVT ts e w)))
            else if lesModel (inputParams (mesh ts)) = 0 then subgridEnergy w else 0)
      else subgridEnergy w)"
  using lesKept_timeAdvance_T [of ts e w] lesKept_assembleVT [of w ts e]
  by (simp_all add: lesKept_def calls_lesStep_T)

text \<open>
  C4. For a value of \<^verbatim>\<open>lesModel\<close> among those the input table lists (0, 1, 2), a
  call of \<^verbatim>\<open>timeAdvance\<close>, in either variant, invokes \<^verbatim>\<open>computeSG\<close> once if
  \<^verbatim>\<open>lesModel\<close> is not zero and the solution time exceeds \<open>5 \<cdot> tStp\<close>, and not at all
  otherwise (so not when the time is at most \<open>5 \<cdot> tStp\<close>); when it is invoked, the
  energy it returns is what \<^verbatim>\<open>tsWriter.subgridEnergy\<close> holds afterwards, and when it
  is not, that member keeps its value.
\<close>

theorem les_gate:
  assumes "lesModel (inputParams (mesh ts)) = 0 \<or> lesModel (inputParams (mesh ts)) = 1
           \<or> lesModel (inputParams (mesh ts)) = 2"
  shows
    "lesCalls (calls (stateOf (timeAdvance ts e w))) =
       lesCalls (calls w) @
         (if lesModel (inputParams (mesh ts)) \<noteq> 0 \<and> solTime ts > 5 * tStp (inputParams (mesh ts))
          then [ComputeSG_V] else [])
     \<and> subgridEnergy (stateOf (timeAdvance ts e w)) =
         (if lesModel (inputParams (mesh ts)) \<noteq> 0 \<and> solTime ts > 5 * tStp (inputParams (mesh ts))
          then fst (sgsLES_computeSG e (nseRHS (assembleV ts e w)) (V (assembleV ts e w)))
          else subgridEnergy w)
     \<and> lesCalls (calls (stateOf (timeAdvance_T ts e w))) =
         lesCalls (calls w) @
           (if lesModel (inputParams (mesh ts)) \<noteq> 0 \<and> solTime ts > 5 * tStp (inputParams (mesh ts))
            then [if lesModel (inputParams (mesh ts)) = 1 then ComputeSG_V else ComputeSG_VT]
            else [])
     \<and> subgridEnergy (stateOf (timeAdvance_T ts e w)) =
         (if lesModel (inputParams (mesh ts)) \<noteq> 0 \<and> solTime ts > 5 * tStp (inputParams (mesh ts))
          then (if lesModel (inputParams (mesh ts)) = 1
                then fst (sgsLES_computeSG e (nseRHS (assembleVT ts e w)) (V (assembleVT ts e w)))
                else fst (sgsLES_computeSG_T e (nseRHS (assembleVT ts e w)) (tmpRHS (assembleVT ts e w))
                            (V (assembleVT ts e w)) (T (assembleVT ts e w))))
          else subgridEnergy w)"
  using assms by (auto simp: les_timeAdvance les_timeAdvance_T)

lemma exTs_vals:
  "maxIterations exTs = 0" "cnTolerance (inputParams (mesh exTs)) = 1 / 1000"
  "rank (mesh exTs) = 0" "nu exTs = 1" "kappa exTs = 1" "dt exTs = 1"
  "lesModel (inputParams (mesh exTs)) = 2" "tStp (inputParams (mesh exTs)) = 1 / 100"
  "solTime exTs = 1"
  by (simp_all add: exTs_eq exGrid_def exParams_def)

theorem les_gate_witness:
  "lesModel (inputParams (mesh exTs)) = 2
   \<and> lesCalls (calls (stateOf (timeAdvance exTs exEnv exWorld))) = [ComputeSG_V]
   \<and> subgridEnergy (stateOf (timeAdvance exTs exEnv exWorld)) = 7
   \<and> lesCalls (calls (stateOf (timeAdvance_T exTs exEnv exWorld))) = [ComputeSG_VT]
   \<and> subgridEnergy (stateOf (timeAdvance_T exTs exEnv exWorld)) = 9
   \<and> lesCalls (calls (stateOf (timeAdvance_T (exTs\<lparr>solTime := 1 / 100\<rparr>) exEnv exWorld))) = []
   \<and> subgridEnergy (stateOf (timeAdvance_T (exTs\<lparr>solTime := 1 / 100\<rparr>) exEnv exWorld)) = 0"
proof -
  have e: "sgsLES_computeSG exEnv = (\<lambda>r v. (7, r))"
    "sgsLES_computeSG_T exEnv = (\<lambda>r h v t. (9, r, h))"
    by (simp_all add: exEnv_def)
  have w: "calls exWorld = []" "subgridEnergy exWorld = 0" by (simp_all add: exWorld_def)
  from les_gate [of exTs exEnv exWorld] les_gate [of "exTs\<lparr>solTime := 1 / 100\<rparr>" exEnv exWorld]
  show ?thesis by (simp add: exTs_vals e w)
qed

text \<open>
  C8. In the variant with a scalar, the sub-grid block calls the overload of
  \<^verbatim>\<open>computeSG\<close> that takes \<^verbatim>\<open>tmpRHS\<close> (and \<^verbatim>\<open>T\<close>) exactly when \<^verbatim>\<open>lesModel\<close> is 2
  (and the time gate is open), and then \<^verbatim>\<open>tmpRHS\<close> is what that call leaves in it;
  with \<^verbatim>\<open>lesModel\<close> equal to 1 it calls the overload on \<^verbatim>\<open>nseRHS\<close> and \<^verbatim>\<open>V\<close> only
  and \<^verbatim>\<open>tmpRHS\<close> keeps its value; with \<^verbatim>\<open>lesModel\<close> equal to 0 (or any other value)
  it makes no call. The same calls are those of the whole step.
\<close>

theorem les_scalar_forwarding:
  "calls (lesStep_T ts e w) =
     calls w @ (if solTime ts > 5 * tStp (inputParams (mesh ts))
                then (if lesModel (inputParams (mesh ts)) = 1 then [ComputeSG_V]
                      else if lesModel (inputParams (mesh ts)) = 2 then [ComputeSG_VT] else [])
                else [])
   \<and> tmpRHS (lesStep_T ts e w) =
     (if solTime ts > 5 * tStp (inputParams (mesh ts)) \<and> lesModel (inputParams (mesh ts)) = 2
      then snd (snd (sgsLES_computeSG_T e (nseRHS w) (tmpRHS w) (V w) (T w)))
      else tmpRHS w)
   \<and> nseRHS (lesStep_T ts e w) =
     (if solTime ts > 5 * tStp (inputParams (mesh ts)) \<and> lesModel (inputParams (mesh ts)) = 1
      then snd (sgsLES_computeSG e (nseRHS w) (V w))
      else if solTime ts > 5 * tStp (inputParams (mesh ts)) \<and> lesModel (inputParams (mesh ts)) = 2
      then fst (snd (sgsLES_computeSG_T e (nseRHS w) (tmpRHS w) (V w) (T w)))
      else nseRHS w)
   \<and> lesCalls (calls (stateOf (timeAdvance_T ts e w))) =
     lesCalls (calls w) @
       (if solTime ts > 5 * tStp (inputParams (mesh ts))
        then (if lesModel (inputParams (mesh ts)) = 1 then [ComputeSG_V]
              else if lesModel (inputParams (mesh ts)) = 2 then [ComputeSG_VT] else [])
        else [])"
  by (simp only: calls_lesStep_T les_timeAdvance_T simp_thms)

subsection \<open>A step of length zero\<close>

lemma candidate_dt0: "dt ts = 0 \<Longrightarrow> jacobiCandidate ts alpha f rhs c = rhs c"
  by (cases c) (simp add: jacobiCandidate_def)

lemma residual_dt0: "dt ts = 0 \<Longrightarrow> jacobiResidual ts alpha f c = f c"
  by (cases c) (simp add: jacobiResidual_def)

lemma sweep_dt0:
  assumes dt0: "dt ts = 0" and box: "loopBox ts = coreDomain (mesh ts)"
    and ne: "nonEmpty (coreDomain (mesh ts))"
    and bc: "\<And>a tr. coreSame (coreDomain (mesh ts)) (fst (bc (a, tr))) a"
  shows "coreSame (coreDomain (mesh ts)) (phi (fst (jacobiSweep ts alpha bc others rhs st))) rhs"
    and "snd (jacobiSweep ts alpha bc others rhs st)
         = Max (insert 0 (set (others (snd (bc (firstLoop ts alpha rhs st, trace st))))))"
proof -
  let ?d = "coreDomain (mesh ts)"
  let ?t1 = "firstLoop ts alpha rhs st"
  let ?f = "fst (bc (?t1, trace st))"
  have t1: "inDom ?d c \<Longrightarrow> ?t1 c = rhs c" for c
    by (simp add: firstLoop_def box sliceAssign_def candidate_dt0 [OF dt0])
  have f: "inDom ?d c \<Longrightarrow> ?f c = rhs c" for c
    using bc [of ?t1 "trace st"] t1 [of c] unfolding coreSame_def by metis
  show "coreSame ?d (phi (fst (jacobiSweep ts alpha bc others rhs st))) rhs"
    using f by (simp add: coreSame_def sweep_phi)
  have r: "inDom ?d c \<Longrightarrow> spec_residual ts alpha ?f rhs c = 0" for c
    using f [of c] by (simp add: spec_residual_def dt0)
  have "map (\<lambda>c. \<bar>spec_residual ts alpha ?f rhs c\<bar>) (cells ?d) = map (\<lambda>c. 0) (cells ?d)"
    by (intro map_cong) (auto simp: set_cells r)
  moreover have "set (map (\<lambda>c. 0::real) (cells ?d)) = {0}"
    using cells_nonEmpty [OF ne] by (cases "cells ?d") auto
  ultimately have "blitz_max (map (\<lambda>c. \<bar>spec_residual ts alpha ?f rhs c\<bar>) (cells ?d)) = 0"
    by (simp add: blitz_max_def)
  then show "snd (jacobiSweep ts alpha bc others rhs st)
         = Max (insert 0 (set (others (snd (bc (?t1, trace st))))))"
    by (simp add: sweep_gloMax [OF box] sweep_phi MPI_Allreduce_MAX_def)
qed

lemma jacobi_dt0:
  assumes dt0: "dt ts = 0" and box: "loopBox ts = coreDomain (mesh ts)"
    and ne: "nonEmpty (coreDomain (mesh ts))"
    and tol: "0 < cnTolerance (inputParams (mesh ts))"
    and bc: "\<And>a tr. coreSame (coreDomain (mesh ts)) (fst (bc (a, tr))) a"
    and oth: "\<And>tr r. r \<in> set (others tr) \<Longrightarrow> r < cnTolerance (inputParams (mesh ts))"
  shows "jacobi ts alpha name bc others rhs st it
         = Returned (fst (jacobiSweep ts alpha bc others rhs st))"
proof -
  have "snd (jacobiSweep ts alpha bc others rhs st) < cnTolerance (inputParams (mesh ts))"
    using tol oth by (simp add: sweep_dt0(2) [OF dt0 box ne bc])
  then show ?thesis by (simp add: jacobi.simps [of ts alpha name bc others rhs st it])
qed

lemma coreSame_refl [simp]: "coreSame d a a"
  by (simp add: coreSame_def)

lemma coreSame_trans: "coreSame d a b \<Longrightarrow> coreSame d b c \<Longrightarrow> coreSame d a c"
  by (simp add: coreSame_def)

lemma keepsCore_coreSame: "keepsCore d f \<Longrightarrow> coreSame d (f a) a"
  by (simp add: keepsCore_def coreSame_def)

lemma bcV_core:
  assumes "haloOnly ts e"
  shows "coreSame (coreDomain (mesh ts)) (fst (bcVx e (a, tr))) a"
    and "coreSame (coreDomain (mesh ts)) (fst (bcVy e (a, tr))) a"
    and "coreSame (coreDomain (mesh ts)) (fst (bcVz e (a, tr))) a"
  using assms
  by (simp_all add: haloOnly_def Let_def bcVx_def bcVy_def bcVz_def keepsCore_coreSame)

lemma wallBC_F_update [simp]: "wallBC (sf\<lparr>F := a\<rparr>) wl = wallBC sf wl"
  by (simp add: wallBC_def split: wall.splits)

lemma wallsOnly_F_update [simp]: "wallsOnly d (sf\<lparr>F := a\<rparr>) = wallsOnly d sf"
  by (simp add: wallsOnly_def)

lemma wallBC_derivTemp_update [simp]: "wallBC (sf\<lparr>derivTemp := a\<rparr>) wl = wallBC sf wl"
  by (simp add: wallBC_def split: wall.splits)

lemma wallsOnly_derivTemp_update [simp]: "wallsOnly d (sf\<lparr>derivTemp := a\<rparr>) = wallsOnly d sf"
  by (simp add: wallsOnly_def)

lemma imposeBC_core:
  assumes "wallsOnly d (fst s)"
  shows "coreSame d (F (fst (imposeBC wl s))) (F (fst s))" and "wallsOnly d (fst (imposeBC wl s))"
  using assms
  by (simp_all add: imposeBC_def case_prod_beta keepsCore_coreSame)
     (simp add: wallsOnly_def keepsCore_coreSame)

lemma syncData_core:
  assumes "wallsOnly d (fst s)"
  shows "coreSame d (F (fst (field_syncData s))) (F (fst s))"
    and "wallsOnly d (fst (field_syncData s))"
  using assms
  by (simp_all add: field_syncData_def case_prod_beta)
     (simp add: wallsOnly_def keepsCore_coreSame)

lemma imposeBCs_core:
  assumes w: "wallsOnly d (fst s)"
  shows "coreSame d (F (fst (imposeBCs PLANAR s))) (F (fst s))"
proof -
  let ?s0 = "field_syncData s"
  have two: "coreSame d (F (fst (imposeBC b (imposeBC a x)))) (F (fst x))
             \<and> wallsOnly d (fst (imposeBC b (imposeBC a x)))"
    if "wallsOnly d (fst x)" for a b x
    using imposeBC_core [OF that, of a] imposeBC_core [of d "imposeBC a x" b]
    by (blast intro: coreSame_trans)
  let ?s1 = "if \<not> xPer (inputParams (gridData (fst s))) then imposeBC Rgt (imposeBC Lft ?s0) else ?s0"
  let ?s2 = "if PLANAR then ?s1
             else if \<not> yPer (inputParams (gridData (fst s))) then imposeBC Bak (imposeBC Frn ?s1) else ?s1"
  have s0: "coreSame d (F (fst ?s0)) (F (fst s))" "wallsOnly d (fst ?s0)"
    using syncData_core [OF w] by simp_all
  have s1: "coreSame d (F (fst ?s1)) (F (fst s)) \<and> wallsOnly d (fst ?s1)"
    using s0 two [OF s0(2), of Rgt Lft] by (auto intro: coreSame_trans)
  then have s2: "coreSame d (F (fst ?s2)) (F (fst s)) \<and> wallsOnly d (fst ?s2)"
    using two [of ?s1 Bak Frn] by (auto intro: coreSame_trans)
  then have "coreSame d (F (fst (imposeBC Bot (imposeBC Top ?s2)))) (F (fst s))"
    using two [of ?s2 Bot Top] by (blast intro: coreSame_trans)
  then show ?thesis by (simp add: imposeBCs_def Let_def)
qed

lemma bcT_core:
  assumes "wallsOnly d sf"
  shows "coreSame d (fst (bcT sf (a, tr))) a"
  using imposeBCs_core [of d "(sf\<lparr>F := a\<rparr>, tr)" False] assms
  by (simp add: bcT_def case_prod_beta)


lemma assembleV_fields [simp]:
  "V (assembleV ts e w) = V w" "P (assembleV ts e w) = P w" "T (assembleV ts e w) = T w"
  by (simp_all add: assembleV_def run_def)

lemma assembleVT_fields [simp]:
  "V (assembleVT ts e w) = V w" "P (assembleVT ts e w) = P w"
  "F (T (assembleVT ts e w)) = F (T w)"
  "wallsOnly d (T (assembleVT ts e w)) = wallsOnly d (T w)"
  by (simp_all add: assembleVT_def run_def computeDiff_def computeNLin_def Let_def case_prod_beta)

lemma lesStep_fields [simp]:
  "V (lesStep ts e w) = V w" "P (lesStep ts e w) = P w" "T (lesStep ts e w) = T w"
  "V (lesStep_T ts e w) = V w" "P (lesStep_T ts e w) = P w" "T (lesStep_T ts e w) = T w"
  by (simp_all add: lesStep_def lesStep_T_def case_prod_beta)

lemma finishV_fields [simp]:
  "V (finishV ts e w) = V w" "F (P (finishV ts e w)) = F (P w)" "T (finishV ts e w) = T w"
  "tmpRHS (finishV ts e w) = tmpRHS w"
  by (simp_all add: finishV_def run_def gradient_def Let_def case_prod_beta)

lemma finishV_dt0:
  "dt ts = 0 \<Longrightarrow> nseRHS (finishV ts e w) = plainvf_assign_vfield (V w)"
  by (simp add: finishV_def run_def gradient_def Let_def case_prod_beta
      plainvf_add_vfield_def plainvf_mul_def plainvf_assign_vfield_def)

lemma finishT_fields [simp]:
  "V (finishT ts e w) = V w" "P (finishT ts e w) = P w" "T (finishT ts e w) = T w"
  "nseRHS (finishT ts e w) = nseRHS w"
  by (simp_all add: finishT_def run_def)

lemma finishT_dt0: "dt ts = 0 \<Longrightarrow> tmpRHS (finishT ts e w) = F (T w)"
  by (simp add: finishT_def run_def plainsf_mul_def plainsf_add_sfield_def)

lemma sync_fields [simp]:
  "V (syncV e w) = V w" "P (syncV e w) = P w" "T (syncV e w) = T w" "tmpRHS (syncV e w) = tmpRHS w"
  "V (syncT e w) = V w" "P (syncT e w) = P w" "T (syncT e w) = T w" "nseRHS (syncT e w) = nseRHS w"
  by (simp_all add: syncV_def syncT_def)

lemma syncV_core:
  assumes "haloOnly ts e"
  shows "coreSame (coreDomain (mesh ts)) (Vx (nseRHS (syncV e w))) (Vx (nseRHS w))"
    and "coreSame (coreDomain (mesh ts)) (Vy (nseRHS (syncV e w))) (Vy (nseRHS w))"
    and "coreSame (coreDomain (mesh ts)) (Vz (nseRHS (syncV e w))) (Vz (nseRHS w))"
  using assms by (simp_all add: haloOnly_def Let_def syncV_def coreSame_def)

lemma syncT_core:
  assumes "haloOnly ts e"
  shows "coreSame (coreDomain (mesh ts)) (tmpRHS (syncT e w)) (tmpRHS w)"
  using assms by (simp add: haloOnly_def Let_def syncT_def keepsCore_coreSame)

lemma predictor_start:
  assumes "dt ts = 0" and "haloOnly ts e"
  shows "predicted (coreDomain (mesh ts)) w (syncV e (finishV ts e (lesStep ts e (assembleV ts e w))))"
    and "rhsIsV (coreDomain (mesh ts)) w (syncV e (finishV ts e (lesStep ts e (assembleV ts e w))))"
    and "T (syncV e (finishV ts e (lesStep ts e (assembleV ts e w)))) = T w"
  using syncV_core [OF assms(2), of "finishV ts e (lesStep ts e (assembleV ts e w))"]
  by (simp_all add: predicted_def rhsIsV_def finishV_dt0 [OF assms(1)] plainvf_assign_vfield_def)

lemma predictor_start_T:
  assumes "dt ts = 0" and "haloOnly ts e" and "wallsOnly (coreDomain (mesh ts)) (T w)"
  shows "predicted (coreDomain (mesh ts)) w
           (syncT e (syncV e (finishT ts e (finishV ts e (lesStep_T ts e (assembleVT ts e w))))))"
    and "rhsIsV (coreDomain (mesh ts)) w
           (syncT e (syncV e (finishT ts e (finishV ts e (lesStep_T ts e (assembleVT ts e w))))))"
    and "rhsIsT (coreDomain (mesh ts)) w
           (syncT e (syncV e (finishT ts e (finishV ts e (lesStep_T ts e (assembleVT ts e w))))))"
  using syncV_core [OF assms(2), of "finishT ts e (finishV ts e (lesStep_T ts e (assembleVT ts e w)))"]
        syncT_core [OF assms(2), of "syncV e (finishT ts e (finishV ts e (lesStep_T ts e (assembleVT ts e w))))"]
        assms(3)
  by (simp_all add: predicted_def rhsIsV_def rhsIsT_def finishV_dt0 [OF assms(1)]
      finishT_dt0 [OF assms(1)] plainvf_assign_vfield_def)


lemma solveVx_dt0:
  assumes dt0: "dt ts = 0" and box: "loopBox ts = coreDomain (mesh ts)"
    and ne: "nonEmpty (coreDomain (mesh ts))"
    and tol: "0 < cnTolerance (inputParams (mesh ts))"
    and halo: "haloOnly ts e"
    and oth: "\<forall>tr. \<forall>r \<in> set (otherRanks e tr). r < cnTolerance (inputParams (mesh ts))"
    and p: "predicted (coreDomain (mesh ts)) w0 w" and r: "rhsIsV (coreDomain (mesh ts)) w0 w"
  shows "\<exists>w'. solveVx ts e w = Returned w' \<and> predicted (coreDomain (mesh ts)) w0 w'
            \<and> rhsIsV (coreDomain (mesh ts)) w0 w' \<and> T w' = T w \<and> tmpRHS w' = tmpRHS w"
proof -
  let ?st = "\<lparr>phi = Vx_F (V w), temp = tempVx w, trace = calls w, cout = stdout w\<rparr>"
  let ?st' = "fst (jacobiSweep ts (nu ts) (bcVx e) (otherRanks e) (Vx (nseRHS w)) ?st)"
  have j: "jacobi ts (nu ts) ''Vx'' (bcVx e) (otherRanks e) (Vx (nseRHS w)) ?st 0 = Returned ?st'"
    by (rule jacobi_dt0 [OF dt0 box ne tol bcV_core(1) [OF halo]]) (use oth in blast)
  have "coreSame (coreDomain (mesh ts)) (phi ?st') (Vx (nseRHS w))"
    by (rule sweep_dt0(1) [OF dt0 box ne bcV_core(1) [OF halo]])
  with r have c: "coreSame (coreDomain (mesh ts)) (phi ?st') (Vx_F (V w0))"
    by (auto simp: rhsIsV_def intro: coreSame_trans)
  have "solveVx ts e w = Returned (putVx w ?st')" by (simp add: solveVx_def j)
  moreover have "predicted (coreDomain (mesh ts)) w0 (putVx w ?st')"
    using p c by (simp add: predicted_def putVx_def)
  moreover have "rhsIsV (coreDomain (mesh ts)) w0 (putVx w ?st')"
    using r by (simp add: rhsIsV_def putVx_def)
  ultimately show ?thesis by (simp add: putVx_def)
qed

lemma solveVy_dt0:
  assumes dt0: "dt ts = 0" and box: "loopBox ts = coreDomain (mesh ts)"
    and ne: "nonEmpty (coreDomain (mesh ts))"
    and tol: "0 < cnTolerance (inputParams (mesh ts))"
    and halo: "haloOnly ts e"
    and oth: "\<forall>tr. \<forall>r \<in> set (otherRanks e tr). r < cnTolerance (inputParams (mesh ts))"
    and p: "predicted (coreDomain (mesh ts)) w0 w" and r: "rhsIsV (coreDomain (mesh ts)) w0 w"
  shows "\<exists>w'. solveVy ts e w = Returned w' \<and> predicted (coreDomain (mesh ts)) w0 w'
            \<and> rhsIsV (coreDomain (mesh ts)) w0 w' \<and> T w' = T w \<and> tmpRHS w' = tmpRHS w"
proof -
  let ?st = "\<lparr>phi = Vy_F (V w), temp = tempVy w, trace = calls w, cout = stdout w\<rparr>"
  let ?st' = "fst (jacobiSweep ts (nu ts) (bcVy e) (otherRanks e) (Vy (nseRHS w)) ?st)"
  have j: "jacobi ts (nu ts) ''Vy'' (bcVy e) (otherRanks e) (Vy (nseRHS w)) ?st 0 = Returned ?st'"
    by (rule jacobi_dt0 [OF dt0 box ne tol bcV_core(2) [OF halo]]) (use oth in blast)
  have "coreSame (coreDomain (mesh ts)) (phi ?st') (Vy (nseRHS w))"
    by (rule sweep_dt0(1) [OF dt0 box ne bcV_core(2) [OF halo]])
  with r have c: "coreSame (coreDomain (mesh ts)) (phi ?st') (Vy_F (V w0))"
    by (auto simp: rhsIsV_def intro: coreSame_trans)
  have "solveVy ts e w = Returned (putVy w ?st')" by (simp add: solveVy_def j)
  moreover have "predicted (coreDomain (mesh ts)) w0 (putVy w ?st')"
    using p c by (simp add: predicted_def putVy_def)
  moreover have "rhsIsV (coreDomain (mesh ts)) w0 (putVy w ?st')"
    using r by (simp add: rhsIsV_def putVy_def)
  ultimately show ?thesis by (simp add: putVy_def)
qed

lemma solveVz_dt0:
  assumes dt0: "dt ts = 0" and box: "loopBox ts = coreDomain (mesh ts)"
    and ne: "nonEmpty (coreDomain (mesh ts))"
    and tol: "0 < cnTolerance (inputParams (mesh ts))"
    and halo: "haloOnly ts e"
    and oth: "\<forall>tr. \<forall>r \<in> set (otherRanks e tr). r < cnTolerance (inputParams (mesh ts))"
    and p: "predicted (coreDomain (mesh ts)) w0 w" and r: "rhsIsV (coreDomain (mesh ts)) w0 w"
  shows "\<exists>w'. solveVz ts e w = Returned w' \<and> predicted (coreDomain (mesh ts)) w0 w'
            \<and> rhsIsV (coreDomain (mesh ts)) w0 w' \<and> T w' = T w \<and> tmpRHS w' = tmpRHS w"
proof -
  let ?st = "\<lparr>phi = Vz_F (V w), temp = tempVz w, trace = calls w, cout = stdout w\<rparr>"
  let ?st' = "fst (jacobiSweep ts (nu ts) (bcVz e) (otherRanks e) (Vz (nseRHS w)) ?st)"
  have j: "jacobi ts (nu ts) ''Vz'' (bcVz e) (otherRanks e) (Vz (nseRHS w)) ?st 0 = Returned ?st'"
    by (rule jacobi_dt0 [OF dt0 box ne tol bcV_core(3) [OF halo]]) (use oth in blast)
  have "coreSame (coreDomain (mesh ts)) (phi ?st') (Vz (nseRHS w))"
    by (rule sweep_dt0(1) [OF dt0 box ne bcV_core(3) [OF halo]])
  with r have c: "coreSame (coreDomain (mesh ts)) (phi ?st') (Vz_F (V w0))"
    by (auto simp: rhsIsV_def intro: coreSame_trans)
  have "solveVz ts e w = Returned (putVz w ?st')" by (simp add: solveVz_def j)
  moreover have "predicted (coreDomain (mesh ts)) w0 (putVz w ?st')"
    using p c by (simp add: predicted_def putVz_def)
  moreover have "rhsIsV (coreDomain (mesh ts)) w0 (putVz w ?st')"
    using r by (simp add: rhsIsV_def putVz_def)
  ultimately show ?thesis by (simp add: putVz_def)
qed

lemma solveT_dt0:
  assumes dt0: "dt ts = 0" and box: "loopBox ts = coreDomain (mesh ts)"
    and ne: "nonEmpty (coreDomain (mesh ts))"
    and tol: "0 < cnTolerance (inputParams (mesh ts))"
    and oth: "\<forall>tr. \<forall>r \<in> set (otherRanks e tr). r < cnTolerance (inputParams (mesh ts))"
    and p: "predicted (coreDomain (mesh ts)) w0 w" and r: "rhsIsT (coreDomain (mesh ts)) w0 w"
  shows "\<exists>w'. solveT ts e w = Returned w' \<and> predicted (coreDomain (mesh ts)) w0 w'"
proof -
  let ?st = "\<lparr>phi = F (T w), temp = tempT w, trace = calls w, cout = stdout w\<rparr>"
  let ?st' = "fst (jacobiSweep ts (kappa ts) (bcT (T w)) (otherRanks e) (tmpRHS w) ?st)"
  have wo: "wallsOnly (coreDomain (mesh ts)) (T w)" using r by (simp add: rhsIsT_def)
  have j: "jacobi ts (kappa ts) ''T'' (bcT (T w)) (otherRanks e) (tmpRHS w) ?st 0 = Returned ?st'"
    by (rule jacobi_dt0 [OF dt0 box ne tol bcT_core [OF wo]]) (use oth in blast)
  have "coreSame (coreDomain (mesh ts)) (phi ?st') (tmpRHS w)"
    by (rule sweep_dt0(1) [OF dt0 box ne bcT_core [OF wo]])
  with r have c: "coreSame (coreDomain (mesh ts)) (phi ?st') (F (T w0))"
    by (auto simp: rhsIsT_def intro: coreSame_trans)
  have "solveT ts e w = Returned (putT w ?st')" by (simp add: solveT_def j)
  moreover have "predicted (coreDomain (mesh ts)) w0 (putT w ?st')"
    using p c by (simp add: predicted_def putT_def)
  ultimately show ?thesis by simp
qed

text \<open>
  The predictor stage of a step of length zero. With \<open>dt = 0\<close> and a positive
  \<^verbatim>\<open>cnTolerance\<close>, when the loops run over a non-empty core, the halo exchanges and
  boundary calls write outside the core only and the other ranks report residuals below
  the tolerance, each Jacobi solve returns after a single sweep, and on reaching
  \<^verbatim>\<open>V.divergence(mgRHS)\<close> the core cells of \<^verbatim>\<open>V\<close> (and of \<^verbatim>\<open>T\<close>) and the whole of
  \<^verbatim>\<open>P\<close> are as they were. The pressure stage that follows scales by \<^verbatim>\<open>1.0/dt\<close>.
\<close>

lemma predictor_dt0:
  assumes dt0: "dt ts = 0" and tol: "0 < cnTolerance (inputParams (mesh ts))"
    and box: "loopBox ts = coreDomain (mesh ts)" and ne: "nonEmpty (coreDomain (mesh ts))"
    and halo: "haloOnly ts e" and walls: "wallsOnly (coreDomain (mesh ts)) (T w)"
    and oth: "\<forall>tr. \<forall>r \<in> set (otherRanks e tr). r < cnTolerance (inputParams (mesh ts))"
  shows "(\<exists>w'. timeAdvance ts e w = Returned (project ts e False w')
              \<and> predicted (coreDomain (mesh ts)) w w')
       \<and> (\<exists>w'. timeAdvance_T ts e w = Returned (project ts e True w')
              \<and> predicted (coreDomain (mesh ts)) w w')"
proof
  let ?d = "coreDomain (mesh ts)"
  note sx = solveVx_dt0 [OF dt0 box ne tol halo oth]
  note sy = solveVy_dt0 [OF dt0 box ne tol halo oth]
  note sz = solveVz_dt0 [OF dt0 box ne tol halo oth]
  note sT = solveT_dt0 [OF dt0 box ne tol oth]
  show "\<exists>w'. timeAdvance ts e w = Returned (project ts e False w') \<and> predicted ?d w w'"
  proof -
    let ?s = "syncV e (finishV ts e (lesStep ts e (assembleV ts e w)))"
    from sx [OF predictor_start(1,2) [OF dt0 halo]] obtain w1 where
      w1: "solveVx ts e ?s = Returned w1" "predicted ?d w w1" "rhsIsV ?d w w1" by blast
    from sy [OF w1(2,3)] obtain w2 where
      w2: "solveVy ts e w1 = Returned w2" "predicted ?d w w2" "rhsIsV ?d w w2" by blast
    from sz [OF w2(2,3)] obtain w3 where
      w3: "solveVz ts e w2 = Returned w3" "predicted ?d w w3" by blast
    have "timeAdvance ts e w = Returned (project ts e False w3)"
      using w1(1) w2(1) w3(1) by (simp add: timeAdvance_def)
    with w3(2) show ?thesis by blast
  qed
  show "\<exists>w'. timeAdvance_T ts e w = Returned (project ts e True w') \<and> predicted ?d w w'"
  proof -
    let ?s = "syncT e (syncV e (finishT ts e (finishV ts e (lesStep_T ts e (assembleVT ts e w)))))"
    have rT: "rhsIsT ?d w ?s" by (rule predictor_start_T(3) [OF dt0 halo walls])
    from sx [OF predictor_start_T(1,2) [OF dt0 halo walls]] obtain w1 where
      w1: "solveVx ts e ?s = Returned w1" "predicted ?d w w1" "rhsIsV ?d w w1"
          "T w1 = T ?s" "tmpRHS w1 = tmpRHS ?s" by blast
    from sy [OF w1(2,3)] obtain w2 where
      w2: "solveVy ts e w1 = Returned w2" "predicted ?d w w2" "rhsIsV ?d w w2"
          "T w2 = T w1" "tmpRHS w2 = tmpRHS w1" by blast
    from sz [OF w2(2,3)] obtain w3 where
      w3: "solveVz ts e w2 = Returned w3" "predicted ?d w w3"
          "T w3 = T w2" "tmpRHS w3 = tmpRHS w2" by blast
    have "rhsIsT ?d w w3" using rT w1(4,5) w2(4,5) w3(3,4) by (simp add: rhsIsT_def)
    from sT [OF w3(2) this] obtain w4 where
      w4: "solveT ts e w3 = Returned w4" "predicted ?d w w4" by blast
    have "timeAdvance_T ts e w = Returned (project ts e True w4)"
      using w1(1) w2(1) w3(1) w4(1) by (simp add: timeAdvance_T_def)
    with w4(2) show ?thesis by blast
  qed
qed

end
